theory Spec2Isabelle
  imports Complex_Main "HOL-Library.Word"
begin

section \<open>mexgdal.c: the MEX gateway to the GDAL raster library\<close>

text \<open>
  A shallow embedding of \<^verbatim>\<open>src/mexgdal/mexgdal.c\<close>. Every C function of the file is a HOL
  function of the same name. The two libraries the file is linked against (GDAL and the
  MATLAB MEX API) are not part of it: what the program asks of GDAL is a parameter (the
  records \<open>gdal\<close>, \<open>dataset\<close> and the datatype \<open>band\<close>), and the MEX arrays are the datatype
  \<open>mxArray\<close>.

  Conventions.
  \<^item> A C \<^verbatim>\<open>int\<close> is a HOL \<open>int\<close>; wherever the C program computes a new \<^verbatim>\<open>int\<close> by
    arithmetic or by a conversion, a result outside the 32-bit range is the error
    \<open>Undefined_behaviour\<close> (signed overflow has no defined result in C).
  \<^item> \<^verbatim>\<open>mexErrMsgTxt\<close> never returns: it is the error \<open>MexErr\<close>, and everything after it is
    skipped. \<^verbatim>\<open>mexWarnMsgTxt\<close> and \<^verbatim>\<open>mexPrintf\<close> return: they are events of the log.
  \<^item> A message built by \<^verbatim>\<open>sprintf\<close> is kept as its format string and its arguments.
  \<^item> A function that can fail, warn or print returns a pair: the log of its events
    and either an error or its C return value (type \<open>'a mex\<close>).
\<close>

subsection \<open>C values\<close>

text \<open>A C \<^verbatim>\<open>double\<close>. The program never computes with doubles: it copies them, converts
  an \<^verbatim>\<open>int\<close> to a double and casts a double to \<^verbatim>\<open>int\<close>.\<close>

datatype double = Finite real | NaN | PosInf | NegInf

definition INT_MIN :: int where
  "INT_MIN = - 2147483648"

definition INT_MAX :: int where
  "INT_MAX = 2147483647"

definition int_range :: "int \<Rightarrow> bool" where
  "int_range v = (INT_MIN \<le> v \<and> v \<le> INT_MAX)"

text \<open>The \<^verbatim>\<open>GDALDataType\<close> enumeration of \<^verbatim>\<open>gdal.h\<close> (GDAL 1.x), in the header's order.\<close>

datatype GDALDataType =
    GDT_Unknown | GDT_Byte | GDT_UInt16 | GDT_Int16 | GDT_UInt32 | GDT_Int32
  | GDT_Float32 | GDT_Float64 | GDT_CInt16 | GDT_CInt32 | GDT_CFloat32 | GDT_CFloat64

text \<open>Arguments of a \<^verbatim>\<open>printf\<close>-style format.\<close>

datatype arg = ArgInt int | ArgStr string | ArgDouble double | ArgType GDALDataType

datatype error =
    MexErr string "arg list"  \<comment> \<open>\<^verbatim>\<open>mexErrMsgTxt\<close>: the call is aborted with this message\<close>
  | Undefined_behaviour       \<comment> \<open>overflow, a read through a null or dangling pointer, a buffer overrun\<close>
  | Out_of_memory             \<comment> \<open>\<^verbatim>\<open>mxCalloc\<close> of a negative count: the host aborts the call\<close>

text \<open>The calls into GDAL that read a file or the raster, or that change the library's
  state. Attribute getters on an open handle are not logged.\<close>

datatype gdal_call =
    Call_GDALAllRegister
  | Call_GDALOpen string
  | Call_GDALClose
  | Call_GDALGetGeoTransform
  | Call_GDALReadWorldFile string "string option"
  | Call_GDALComputeRasterMinMax
  | Call_GDALRasterIO int int int int int int GDALDataType

datatype event =
    Warn string "arg list"    \<comment> \<open>\<^verbatim>\<open>mexWarnMsgTxt\<close>\<close>
  | Printf string "arg list"  \<comment> \<open>\<^verbatim>\<open>mexPrintf\<close>\<close>
  | Call gdal_call

type_synonym 'a mex = "event list \<times> (error + 'a)"

definition ret :: "'a \<Rightarrow> 'a mex" where
  "ret x = ([], Inr x)"

definition raise :: "error \<Rightarrow> 'a mex" where
  "raise e = ([], Inl e)"

definition mexErrMsgTxt :: "string \<Rightarrow> arg list \<Rightarrow> 'a mex" where
  "mexErrMsgTxt fmt args = raise (MexErr fmt args)"

definition mexWarnMsgTxt :: "string \<Rightarrow> arg list \<Rightarrow> unit mex" where
  "mexWarnMsgTxt fmt args = ([Warn fmt args], Inr ())"

definition mexPrintf :: "string \<Rightarrow> arg list \<Rightarrow> unit mex" where
  "mexPrintf fmt args = ([Printf fmt args], Inr ())"

definition calls :: "gdal_call \<Rightarrow> unit mex" where
  "calls c = ([Call c], Inr ())"

text \<open>Sequencing: the statements after an error are not run; the logs are appended.\<close>

definition seq :: "'a mex \<Rightarrow> ('a \<Rightarrow> 'b mex) \<Rightarrow> 'b mex" where
  "seq m f =
     (case m of
        (l, Inl e) \<Rightarrow> (l, Inl e)
      | (l, Inr x) \<Rightarrow> (case f x of (l', r) \<Rightarrow> (l @ l', r)))"

text \<open>\<^verbatim>\<open>if (c) { body }\<close> with no else branch.\<close>

definition if_then :: "bool \<Rightarrow> unit mex \<Rightarrow> unit mex" where
  "if_then c body = (if c then body else ret ())"

text \<open>The cast \<^verbatim>\<open>(int)x\<close> of a double: truncation towards zero; undefined when the
  truncated value is not an \<^verbatim>\<open>int\<close> (C99 6.3.1.4), so also for NaN and the infinities.\<close>

definition int_of_double :: "double \<Rightarrow> int mex" where
  "int_of_double d =
     (case d of
        Finite x \<Rightarrow>
          (let t = (if 0 \<le> x then \<lfloor>x\<rfloor> else \<lceil>x\<rceil>)
           in if int_range t then ret t else raise Undefined_behaviour)
      | _ \<Rightarrow> raise Undefined_behaviour)"

text \<open>The conversion \<^verbatim>\<open>(double)n\<close> of an \<^verbatim>\<open>int\<close>: exact.\<close>

definition double_of_int :: "int \<Rightarrow> double" where
  "double_of_int n = Finite (of_int n)"

text \<open>\<^verbatim>\<open>a - b\<close> on \<^verbatim>\<open>int\<close>.\<close>

definition int_sub :: "int \<Rightarrow> int \<Rightarrow> int mex" where
  "int_sub a b = (if int_range (a - b) then ret (a - b) else raise Undefined_behaviour)"

subsection \<open>MEX arrays\<close>

text \<open>
  An \<^verbatim>\<open>mxArray\<close>: its class, its dimensions M and N and its data. A structure array
  holds its field names and, for each element, one value pointer per field name
  (\<open>None\<close> is the null pointer of a field that was never set). \<open>MxOther\<close> stands for
  the classes the program never creates (cell, logical, int32, ...).
\<close>

datatype mxArray =
    MxChar nat nat string
  | MxDouble nat nat "double list"
  | MxUInt8 nat nat "8 word list"
  | MxStruct nat nat "string list" "mxArray option list list"
  | MxOther nat nat

fun mxGetM :: "mxArray \<Rightarrow> nat" where
  "mxGetM (MxChar m n s) = m"
| "mxGetM (MxDouble m n ds) = m"
| "mxGetM (MxUInt8 m n bs) = m"
| "mxGetM (MxStruct m n names els) = m"
| "mxGetM (MxOther m n) = m"

fun mxGetN :: "mxArray \<Rightarrow> nat" where
  "mxGetN (MxChar m n s) = n"
| "mxGetN (MxDouble m n ds) = n"
| "mxGetN (MxUInt8 m n bs) = n"
| "mxGetN (MxStruct m n names els) = n"
| "mxGetN (MxOther m n) = n"

fun mxIsChar :: "mxArray \<Rightarrow> bool" where
  "mxIsChar (MxChar m n s) = True"
| "mxIsChar a = False"

fun mxIsStruct :: "mxArray \<Rightarrow> bool" where
  "mxIsStruct (MxStruct m n names els) = True"
| "mxIsStruct a = False"

fun mxIsDouble :: "mxArray \<Rightarrow> bool" where
  "mxIsDouble (MxDouble m n ds) = True"
| "mxIsDouble a = False"

text \<open>\<^verbatim>\<open>pr = mxGetPr(field); (int)pr[0]\<close>: the first double of the array's real data. An
  empty array has no data, and an array of another class has no doubles: the read is
  outside any object.\<close>

fun first_as_int :: "mxArray \<Rightarrow> int mex" where
  "first_as_int (MxDouble m n (d # ds)) = int_of_double d"
| "first_as_int a = raise Undefined_behaviour"

subsection \<open>Unpacking the options structure\<close>

definition unpack_gdal_dump :: "mxArray \<Rightarrow> int mex" where
  "unpack_gdal_dump field =
     seq (if_then (\<not> mxIsDouble field)
            (mexWarnMsgTxt ''unpack_gdal_dump:  gdal_dump field must be a double.\<newline>'' []))
       (\<lambda>_. let m = mxGetM field; n = mxGetN field in
          seq (if_then (m \<noteq> 1)
                 (mexWarnMsgTxt ''unpack_gdal_dump:  gdal_dump field must be mx1 rather than %dx%d.\<newline>''
                    [ArgInt (int m), ArgInt (int n)]))
            (\<lambda>_. first_as_int field))"

definition unpack_band :: "mxArray \<Rightarrow> int mex" where
  "unpack_band field =
     (let m = mxGetM field; n = mxGetN field in
      seq (if_then (m \<noteq> 1 \<or> n \<noteq> 1)
             (mexWarnMsgTxt ''unpack_band:  band field must be 1x1 rather than %dx%d.\<newline>''
                [ArgInt (int m), ArgInt (int n)]))
        (\<lambda>_. first_as_int field))"

definition unpack_xextend :: "mxArray \<Rightarrow> int mex" where
  "unpack_xextend field =
     (let m = mxGetM field; n = mxGetN field in
      seq (if_then (m \<noteq> 1 \<or> n \<noteq> 1)
             (mexErrMsgTxt ''unpack_xExtend:  xExtend field must be 1x1 rather than %dx%d.\<newline>''
                [ArgInt (int m), ArgInt (int n)]))
        (\<lambda>_. first_as_int field))"

definition unpack_yextend :: "mxArray \<Rightarrow> int mex" where
  "unpack_yextend field =
     (let m = mxGetM field; n = mxGetN field in
      seq (if_then (m \<noteq> 1 \<or> n \<noteq> 1)
             (mexErrMsgTxt ''unpack_yExtend:  yExtend field must be 1x1 rather than %dx%d.\<newline>''
                [ArgInt (int m), ArgInt (int n)]))
        (\<lambda>_. first_as_int field))"

definition unpack_xout :: "mxArray \<Rightarrow> int mex" where
  "unpack_xout field =
     (let m = mxGetM field; n = mxGetN field in
      seq (if_then (m \<noteq> 1 \<or> n \<noteq> 1)
             (mexErrMsgTxt ''unpack_xout:  xout field must be 1x1 rather than %dx%d.\<newline>''
                [ArgInt (int m), ArgInt (int n)]))
        (\<lambda>_. first_as_int field))"

definition unpack_yout :: "mxArray \<Rightarrow> int mex" where
  "unpack_yout field =
     (let m = mxGetM field; n = mxGetN field in
      seq (if_then (m \<noteq> 1 \<or> n \<noteq> 1)
             (mexErrMsgTxt ''unpack_yout:  yout field must be 1x1 rather than %dx%d.\<newline>''
                [ArgInt (int m), ArgInt (int n)]))
        (\<lambda>_. first_as_int field))"

definition unpack_overview :: "mxArray \<Rightarrow> int mex" where
  "unpack_overview field =
     (let m = mxGetM field; n = mxGetN field in
      seq (if_then (m \<noteq> 1)
             (mexWarnMsgTxt ''unpack_overview:  overview field must be 1x1 rather than %dx%d.\<newline>''
                [ArgInt (int m), ArgInt (int n)]))
        (\<lambda>_. first_as_int field))"

definition unpack_verbose :: "mxArray \<Rightarrow> int mex" where
  "unpack_verbose field =
     (let m = mxGetM field; n = mxGetN field in
      seq (if_then (m \<noteq> 1)
             (mexWarnMsgTxt ''unpack_verbose:  overview field must be 1x1 rather than %dx%d.\<newline>''
                [ArgInt (int m), ArgInt (int n)]))
        (\<lambda>_. first_as_int field))"

text \<open>
  The ten variables of \<^verbatim>\<open>mexFunction\<close> that \<^verbatim>\<open>unpack_input_options\<close> writes through
  its pointer arguments (\<^verbatim>\<open>mexgdal_verbose\<close> is the file's global).
\<close>

record request =
  requested_band :: int
  requested_overview :: int
  gdal_dump :: int
  mexgdal_verbose :: int
  xorigin :: int
  yorigin :: int
  xextend :: int
  yextend :: int
  xout :: int
  yout :: int

fun mxGetNumberOfFields :: "mxArray \<Rightarrow> nat" where
  "mxGetNumberOfFields (MxStruct m n names els) = length names"
| "mxGetNumberOfFields a = 0"

fun mxGetFieldByNumber :: "mxArray \<Rightarrow> nat \<Rightarrow> nat \<Rightarrow> mxArray option" where
  "mxGetFieldByNumber (MxStruct m n names els) index ifield =
     (if index < length els \<and> ifield < length (els ! index) then els ! index ! ifield else None)"
| "mxGetFieldByNumber a index ifield = None"

fun mxGetFieldNameByNumber :: "mxArray \<Rightarrow> nat \<Rightarrow> string option" where
  "mxGetFieldNameByNumber (MxStruct m n names els) ifield =
     (if ifield < length names then Some (names ! ifield) else None)"
| "mxGetFieldNameByNumber a ifield = None"

text \<open>The body of the loop of \<^verbatim>\<open>unpack_input_options\<close> after the two null checks: ten
  \<^verbatim>\<open>if (strcmp(fieldname, ...) == 0)\<close> statements in a row.\<close>

definition unpack_field :: "string \<Rightarrow> mxArray \<Rightarrow> request \<Rightarrow> request mex" where
  "unpack_field fieldname mxField v0 =
     seq (if fieldname = ''band''
          then seq (unpack_band mxField) (\<lambda>r. ret (v0\<lparr>requested_band := r\<rparr>)) else ret v0) (\<lambda>v1.
     seq (if fieldname = ''overview''
          then seq (unpack_overview mxField) (\<lambda>r. ret (v1\<lparr>requested_overview := r\<rparr>)) else ret v1) (\<lambda>v2.
     seq (if fieldname = ''gdal_dump''
          then seq (unpack_gdal_dump mxField) (\<lambda>r. ret (v2\<lparr>gdal_dump := r\<rparr>)) else ret v2) (\<lambda>v3.
     seq (if fieldname = ''verbose''
          then seq (unpack_verbose mxField) (\<lambda>r. ret (v3\<lparr>mexgdal_verbose := r\<rparr>)) else ret v3) (\<lambda>v4.
     seq (if fieldname = ''xorigin''
          then seq (unpack_band mxField) (\<lambda>r. ret (v4\<lparr>xorigin := r\<rparr>)) else ret v4) (\<lambda>v5.
     seq (if fieldname = ''yorigin''
          then seq (unpack_band mxField) (\<lambda>r. ret (v5\<lparr>yorigin := r\<rparr>)) else ret v5) (\<lambda>v6.
     seq (if fieldname = ''xextend''
          then seq (unpack_xextend mxField) (\<lambda>r. ret (v6\<lparr>xextend := r\<rparr>)) else ret v6) (\<lambda>v7.
     seq (if fieldname = ''yextend''
          then seq (unpack_yextend mxField) (\<lambda>r. ret (v7\<lparr>yextend := r\<rparr>)) else ret v7) (\<lambda>v8.
     seq (if fieldname = ''xout''
          then seq (unpack_xout mxField) (\<lambda>r. ret (v8\<lparr>xout := r\<rparr>)) else ret v8) (\<lambda>v9.
         (if fieldname = ''yout''
          then seq (unpack_yout mxField) (\<lambda>r. ret (v9\<lparr>yout := r\<rparr>)) else ret v9))))))))))"

text \<open>The loop \<^verbatim>\<open>for (ifield = 0; ifield < nfields; ++ifield)\<close>.\<close>

function unpack_loop :: "mxArray \<Rightarrow> nat \<Rightarrow> nat \<Rightarrow> request \<Rightarrow> request mex" where
  "unpack_loop mx_struct nfields ifield v =
     (if ifield < nfields then
        (case mxGetFieldByNumber mx_struct 0 ifield of
           None \<Rightarrow> mexErrMsgTxt ''mxGetFieldByNumber returned NULL on field %d.\<newline>'' [ArgInt (int ifield)]
         | Some mxField \<Rightarrow>
             (case mxGetFieldNameByNumber mx_struct ifield of
                None \<Rightarrow> mexErrMsgTxt ''mxGetFieldNameByNumber returned NULL on field %d.\<newline>''
                         [ArgInt (int ifield)]
              | Some fieldname \<Rightarrow>
                  seq (unpack_field fieldname mxField v)
                    (\<lambda>v'. unpack_loop mx_struct nfields (ifield + 1) v')))
      else ret v)"
  by pat_completeness auto
termination
  by (relation "measure (\<lambda>(mx_struct, nfields, ifield, v). nfields - ifield)") auto

definition unpack_input_options :: "mxArray \<Rightarrow> request \<Rightarrow> request mex" where
  "unpack_input_options mx_struct v =
     unpack_loop mx_struct (mxGetNumberOfFields mx_struct) 0 v"

subsection \<open>The window (lines 318 to 337 of mexFunction)\<close>

text \<open>
  \<^verbatim>\<open>if (xextend == -1) xextend = RasterXSize;\<close> and the three statements after it:
  the extents still at their initial value \<open>-1\<close> become the raster's size, then the output
  sizes still at \<open>-1\<close> become extent minus origin.
\<close>

definition window_planner :: "request \<Rightarrow> int \<Rightarrow> int \<Rightarrow> request mex" where
  "window_planner v0 RasterXSize RasterYSize =
     (let v1 = (if xextend v0 = - 1 then v0\<lparr>xextend := RasterXSize\<rparr> else v0);
          v2 = (if yextend v1 = - 1 then v1\<lparr>yextend := RasterYSize\<rparr> else v1)
      in seq (if xout v2 = - 1
              then seq (int_sub (xextend v2) (xorigin v2)) (\<lambda>r. ret (v2\<lparr>xout := r\<rparr>))
              else ret v2) (\<lambda>v3.
             (if yout v3 = - 1
              then seq (int_sub (yextend v3) (yorigin v3)) (\<lambda>r. ret (v3\<lparr>yout := r\<rparr>))
              else ret v3)))"

subsection \<open>What the program asks of GDAL\<close>

text \<open>
  The handles of GDAL are values here: a raster band with what each GDAL call made on
  its handle returns, a dataset with its bands, and the library with its files. A
  selector carries the name of the GDAL function it stands for. \<^verbatim>\<open>mexFunction\<close> passes
  a band handle to the dataset functions \<^verbatim>\<open>GDALGetRasterXSize\<close> and \<^verbatim>\<open>GDALGetRasterYSize\<close>;
  what they return there is \<open>GDALGetRasterXSize_hBand\<close> and \<open>GDALGetRasterYSize_hBand\<close>.
  \<open>GDALRasterIO_Byte\<close> and \<open>GDALRasterIO_Float64\<close> give, for a read request (offsets,
  sizes, buffer sizes), the sample that the call leaves at each index of the buffer.
\<close>

datatype CPLErr = CE_None | CE_Debug | CE_Warning | CE_Failure | CE_Fatal

type_synonym GeoTransform = "double \<times> double \<times> double \<times> double \<times> double \<times> double"

datatype band = Band
  (GDALGetRasterXSize_hBand: int)
  (GDALGetRasterYSize_hBand: int)
  (GDALGetRasterBandXSize: int)
  (GDALGetRasterBandYSize: int)
  (GDALGetRasterDataType: GDALDataType)
  (GDALGetRasterNoDataValue: double)
  (overviews: "band list")
  (GDALGetRasterMinimum: "double \<times> int")
  (GDALGetRasterMaximum: "double \<times> int")
  (GDALComputeRasterMinMax: "double \<times> double")
  (GDALGetColorInterpretationName: string)
  (GDALRasterIO_Byte: "int \<Rightarrow> int \<Rightarrow> int \<Rightarrow> int \<Rightarrow> int \<Rightarrow> int \<Rightarrow> nat \<Rightarrow> 8 word")
  (GDALRasterIO_Float64: "int \<Rightarrow> int \<Rightarrow> int \<Rightarrow> int \<Rightarrow> int \<Rightarrow> int \<Rightarrow> nat \<Rightarrow> double")

record driver =
  GDALGetDriverShortName :: string
  GDALGetDriverLongName :: string

record dataset =
  GDALGetProjectionRef :: string
  GDALGetGeoTransform :: "CPLErr \<times> GeoTransform"
  GDALGetDatasetDriver :: driver
  GDALGetRasterXSize :: int
  GDALGetRasterYSize :: int
  raster_bands :: "band list"

record gdal =
  GDALOpen :: "string \<Rightarrow> dataset option"
  GDALReadWorldFile :: "string \<Rightarrow> string option \<Rightarrow> GeoTransform \<Rightarrow> int \<times> GeoTransform"
  drivers :: "driver list"
  GDAL_VERSION_NUM :: int
  GDALGetDataTypeName :: "GDALDataType \<Rightarrow> string"

definition GDALGetRasterCount :: "dataset \<Rightarrow> int" where
  "GDALGetRasterCount hDataset = int (length (raster_bands hDataset))"

text \<open>Bands are numbered from 1, overviews and drivers from 0; an index out of range
  gives the null handle.\<close>

definition GDALGetRasterBand :: "dataset \<Rightarrow> int \<Rightarrow> band option" where
  "GDALGetRasterBand hDataset n =
     (if 1 \<le> n \<and> n \<le> GDALGetRasterCount hDataset
      then Some (raster_bands hDataset ! nat (n - 1)) else None)"

definition GDALGetOverviewCount :: "band \<Rightarrow> int" where
  "GDALGetOverviewCount hBand = int (length (overviews hBand))"

definition GDALGetOverview :: "band \<Rightarrow> int \<Rightarrow> band option" where
  "GDALGetOverview hBand i =
     (if 0 \<le> i \<and> i < GDALGetOverviewCount hBand
      then Some (overviews hBand ! nat i) else None)"

definition GDALGetDriverCount :: "gdal \<Rightarrow> int" where
  "GDALGetDriverCount lib = int (length (drivers lib))"

definition GDALGetDriver :: "gdal \<Rightarrow> int \<Rightarrow> driver option" where
  "GDALGetDriver lib j =
     (if 0 \<le> j \<and> j < GDALGetDriverCount lib then Some (drivers lib ! nat j) else None)"

text \<open>The size in bits of a sample of each type.\<close>

fun GDALGetDataTypeSize :: "GDALDataType \<Rightarrow> int" where
  "GDALGetDataTypeSize GDT_Byte = 8"
| "GDALGetDataTypeSize GDT_UInt16 = 16"
| "GDALGetDataTypeSize GDT_Int16 = 16"
| "GDALGetDataTypeSize GDT_UInt32 = 32"
| "GDALGetDataTypeSize GDT_Int32 = 32"
| "GDALGetDataTypeSize GDT_Float32 = 32"
| "GDALGetDataTypeSize GDT_Float64 = 64"
| "GDALGetDataTypeSize GDT_CInt16 = 32"
| "GDALGetDataTypeSize GDT_CInt32 = 64"
| "GDALGetDataTypeSize GDT_CFloat32 = 64"
| "GDALGetDataTypeSize GDT_CFloat64 = 128"
| "GDALGetDataTypeSize GDT_Unknown = 0"

text \<open>A use of a handle that is null.\<close>

definition deref :: "'a option \<Rightarrow> 'a mex" where
  "deref h = (case h of None \<Rightarrow> raise Undefined_behaviour | Some x \<Rightarrow> ret x)"

text \<open>\<^verbatim>\<open>sprintf(buffer, fmt, s)\<close> with one \<^verbatim>\<open>%s\<close> in the format: the text and its final
  zero byte fit in a buffer of \<open>bufsize\<close> bytes.\<close>

definition sprintf_fits :: "nat \<Rightarrow> string \<Rightarrow> string \<Rightarrow> bool" where
  "sprintf_fits bufsize fmt s = (length fmt - 2 + length s + 1 \<le> bufsize)"

subsection \<open>record\_geotransform\<close>

definition record_geotransform :: "gdal \<Rightarrow> string \<Rightarrow> dataset \<Rightarrow> (int \<times> GeoTransform) mex" where
  "record_geotransform lib gdal_filename hDataset =
     seq (calls Call_GDALGetGeoTransform) (\<lambda>_.
       case GDALGetGeoTransform hDataset of (err, adf1) \<Rightarrow>
       if err = CE_None then ret (0, adf1)
       else
         seq (calls (Call_GDALReadWorldFile gdal_filename (Some ''wld''))) (\<lambda>_.
           case GDALReadWorldFile lib gdal_filename (Some ''wld'') adf1 of (r2, adf2) \<Rightarrow>
           if r2 \<noteq> 0 then ret (0, adf2)
           else if \<not> sprintf_fits 5000 ''%s.xxx'' gdal_filename then raise Undefined_behaviour
           else
             (let generic_buffer = gdal_filename @ ''.xxx'' in
              seq (calls (Call_GDALReadWorldFile generic_buffer (Some ''wld''))) (\<lambda>_.
                case GDALReadWorldFile lib generic_buffer (Some ''wld'') adf2 of (status, adf3) \<Rightarrow>
                if status = 1 then ret (0, adf3)
                else if GDAL_VERSION_NUM lib \<ge> 1210 then
                  seq (calls (Call_GDALReadWorldFile gdal_filename None)) (\<lambda>_.
                    case GDALReadWorldFile lib gdal_filename None adf3 of (r4, adf4) \<Rightarrow>
                    if r4 \<noteq> 0 then ret (0, adf4) else ret (- 1, adf4))
                else ret (- 1, adf3)))))"

subsection \<open>Building MEX arrays\<close>

definition mxCreateString :: "string \<Rightarrow> mxArray" where
  "mxCreateString s = MxChar 1 (length s) s"

definition mxCreateDoubleScalar :: "double \<Rightarrow> mxArray" where
  "mxCreateDoubleScalar d = MxDouble 1 1 [d]"

text \<open>A new structure array of m by n elements: every field of every element is null.\<close>

definition mxCreateStructMatrix :: "nat \<Rightarrow> nat \<Rightarrow> string list \<Rightarrow> mxArray" where
  "mxCreateStructMatrix m n fieldnames =
     MxStruct m n fieldnames (replicate (m * n) (replicate (length fieldnames) None))"

fun mxGetFieldNumber :: "string list \<Rightarrow> string \<Rightarrow> nat option" where
  "mxGetFieldNumber [] fieldname = None"
| "mxGetFieldNumber (f # fs) fieldname =
     (if f = fieldname then Some 0 else map_option Suc (mxGetFieldNumber fs fieldname))"

text \<open>\<^verbatim>\<open>mxSetField(s, index, fieldname, v)\<close> stores the pointer v in the field of element
  \<open>index\<close>; it does nothing when the element or the field does not exist.\<close>

fun mxSetField :: "mxArray \<Rightarrow> nat \<Rightarrow> string \<Rightarrow> mxArray \<Rightarrow> mxArray" where
  "mxSetField (MxStruct m n names els) index fieldname v =
     (case mxGetFieldNumber names fieldname of
        None \<Rightarrow> MxStruct m n names els
      | Some k \<Rightarrow>
          if index < length els
          then MxStruct m n names (els[index := (els ! index)[k := Some v]])
          else MxStruct m n names els)"
| "mxSetField a index fieldname v = a"

fun mxGetField :: "mxArray \<Rightarrow> nat \<Rightarrow> string \<Rightarrow> mxArray option" where
  "mxGetField (MxStruct m n names els) index fieldname =
     (case mxGetFieldNumber names fieldname of
        None \<Rightarrow> None
      | Some k \<Rightarrow> mxGetFieldByNumber (MxStruct m n names els) index k)"
| "mxGetField a index fieldname = None"

fun mxGetNumberOfElements :: "mxArray \<Rightarrow> nat" where
  "mxGetNumberOfElements (MxStruct m n names els) = length els"
| "mxGetNumberOfElements (MxChar m n s) = length s"
| "mxGetNumberOfElements (MxDouble m n ds) = length ds"
| "mxGetNumberOfElements (MxUInt8 m n bs) = length bs"
| "mxGetNumberOfElements (MxOther m n) = m * n"

subsection \<open>handle\_overviews and populate\_metadata\_struct\<close>

text \<open>The loop \<^verbatim>\<open>for (overview = 0; overview < num_overviews; ++overview)\<close>.\<close>

function overview_loop :: "band \<Rightarrow> int \<Rightarrow> int \<Rightarrow> mxArray \<Rightarrow> mxArray mex" where
  "overview_loop hBand num_overviews overview overview_struct =
     (if overview < num_overviews then
        seq (deref (GDALGetOverview hBand overview)) (\<lambda>overview_hBand.
          let xSize = GDALGetRasterBandXSize overview_hBand;
              s1 = mxSetField overview_struct (nat overview) ''XSize''
                     (mxCreateDoubleScalar (double_of_int xSize));
              ySize = GDALGetRasterBandYSize overview_hBand;
              s2 = mxSetField s1 (nat overview) ''YSize''
                     (mxCreateDoubleScalar (double_of_int ySize))
          in overview_loop hBand num_overviews (overview + 1) s2)
      else ret overview_struct)"
  by pat_completeness auto
termination
  by (relation "measure (\<lambda>(hBand, num_overviews, overview, s). nat (num_overviews - overview))") auto

definition handle_overviews :: "band \<Rightarrow> mxArray \<Rightarrow> mxArray mex" where
  "handle_overviews hBand band_struct =
     (let overview_fieldnames = [''XSize'', ''YSize''];
          num_overviews = GDALGetOverviewCount hBand
      in if num_overviews > 0 then
           (let overview_struct = mxCreateStructMatrix (nat num_overviews) 1 overview_fieldnames in
            seq (overview_loop hBand num_overviews 0 overview_struct) (\<lambda>overview_struct.
              ret (mxSetField band_struct 0 ''Overview'' overview_struct)))
         else ret band_struct)"

text \<open>The loop \<^verbatim>\<open>for (j = 0; j < driverCount; ++j)\<close>.\<close>

function driver_loop :: "gdal \<Rightarrow> int \<Rightarrow> int \<Rightarrow> mxArray \<Rightarrow> mxArray mex" where
  "driver_loop lib driverCount j driver_struct =
     (if j < driverCount then
        seq (deref (GDALGetDriver lib j)) (\<lambda>hDriver.
          let s1 = mxSetField driver_struct (nat j) ''DriverLongName''
                     (mxCreateString (GDALGetDriverLongName hDriver));
              s2 = mxSetField s1 (nat j) ''DriverShortName''
                     (mxCreateString (GDALGetDriverShortName hDriver))
          in driver_loop lib driverCount (j + 1) s2)
      else ret driver_struct)"
  by pat_completeness auto
termination
  by (relation "measure (\<lambda>(lib, driverCount, j, s). nat (driverCount - j))") auto

text \<open>The loop \<^verbatim>\<open>for (band_number = 1; band_number <= raster_count; ++band_number)\<close>.
  Every \<^verbatim>\<open>mxSetField\<close> of its body is written with the element index 0, as in the source.\<close>

function band_loop :: "gdal \<Rightarrow> dataset \<Rightarrow> int \<Rightarrow> int \<Rightarrow> mxArray \<Rightarrow> mxArray mex" where
  "band_loop lib hDataset raster_count band_number band_struct =
     (if band_number \<le> raster_count then
        seq (deref (GDALGetRasterBand hDataset band_number)) (\<lambda>hBand.
          let s1 = mxSetField band_struct 0 ''XSize''
                     (mxCreateDoubleScalar (double_of_int (GDALGetRasterBandXSize hBand)));
              s2 = mxSetField s1 0 ''YSize''
                     (mxCreateDoubleScalar (double_of_int (GDALGetRasterBandYSize hBand)));
              gdal_type = GDALGetRasterDataType hBand;
              s3 = mxSetField s2 0 ''DataType''
                     (mxCreateString (GDALGetDataTypeName lib gdal_type));
              s4 = mxSetField s3 0 ''NoDataValue''
                     (mxCreateDoubleScalar (GDALGetRasterNoDataValue hBand))
          in seq (handle_overviews hBand s4) (\<lambda>s5.
               band_loop lib hDataset raster_count (band_number + 1) s5))
      else ret band_struct)"
  by pat_completeness auto
termination
  by (relation "measure (\<lambda>(lib, hDataset, raster_count, band_number, s).
        nat (raster_count + 1 - band_number))") auto

text \<open>\<^verbatim>\<open>sprintf(error_msg, fmt, gdal_filename)\<close> into the 500 bytes of \<^verbatim>\<open>error_msg\<close>.\<close>

definition sprintf_error_msg :: "string \<Rightarrow> string \<Rightarrow> unit mex" where
  "sprintf_error_msg fmt gdal_filename =
     (if sprintf_fits 500 fmt gdal_filename then ret () else raise Undefined_behaviour)"

definition populate_metadata_struct :: "gdal \<Rightarrow> string \<Rightarrow> mxArray mex" where
  "populate_metadata_struct lib gdal_filename =
     (let driverCount = GDALGetDriverCount lib in
      seq (calls (Call_GDALOpen gdal_filename)) (\<lambda>_.
      case GDALOpen lib gdal_filename of
        None \<Rightarrow>
          seq (sprintf_error_msg ''Unable to open %s.\<newline>'' gdal_filename) (\<lambda>_.
            mexErrMsgTxt ''Unable to open %s.\<newline>'' [ArgStr gdal_filename])
      | Some hDataset \<Rightarrow>
         (let fieldnames = [''ProjectionRef'', ''GeoTransform'', ''DriverShortName'',
                ''DriverLongName'', ''RasterXSize'', ''RasterYSize'', ''RasterCount'',
                ''Driver'', ''Band''];
              m0 = mxCreateStructMatrix 1 1 fieldnames;
              driver_fieldnames = [''DriverLongName'', ''DriverShortName''];
              driver_struct0 = mxCreateStructMatrix (nat driverCount) 1 driver_fieldnames
          in
          seq (driver_loop lib driverCount 0 driver_struct0) (\<lambda>driver_struct.
          let m1 = mxSetField m0 0 ''Driver'' driver_struct;
              m2 = mxSetField m1 0 ''ProjectionRef'' (mxCreateString (GDALGetProjectionRef hDataset))
          in
          seq (record_geotransform lib gdal_filename hDataset) (\<lambda>(status, adfGeoTransform).
          seq (if status = 0 then
                 (case adfGeoTransform of (a0, a1, a2, a3, a4, a5) \<Rightarrow>
                    ret (mxSetField m2 0 ''GeoTransform'' (MxDouble 6 1 [a0, a1, a2, a3, a4, a5])))
               else
                 seq (sprintf_error_msg
                        ''No internal georeferencing exists for %s, and could not find a suitable world file either.\<newline>''
                        gdal_filename) (\<lambda>_.
                 seq (mexWarnMsgTxt
                        ''No internal georeferencing exists for %s, and could not find a suitable world file either.\<newline>''
                        [ArgStr gdal_filename]) (\<lambda>_. ret m2))) (\<lambda>m3.
          let hDriver = GDALGetDatasetDriver hDataset;
              m4 = mxSetField m3 0 ''DriverShortName'' (mxCreateString (GDALGetDriverShortName hDriver));
              m5 = mxSetField m4 0 ''DriverLongName'' (mxCreateString (GDALGetDriverLongName hDriver));
              xSize = GDALGetRasterXSize hDataset;
              m6 = mxSetField m5 0 ''RasterXSize'' (mxCreateDoubleScalar (double_of_int xSize));
              ySize = GDALGetRasterYSize hDataset;
              m7 = mxSetField m6 0 ''RasterYSize'' (mxCreateDoubleScalar (double_of_int ySize));
              raster_count = GDALGetRasterCount hDataset;
              m8 = mxSetField m7 0 ''RasterCount'' (mxCreateDoubleScalar (double_of_int raster_count));
              band_fieldnames = [''XSize'', ''YSize'', ''Overview'', ''NoDataValue'', ''DataType''];
              band_struct0 = mxCreateStructMatrix (nat raster_count) 1 band_fieldnames
          in
          seq (band_loop lib hDataset raster_count 1 band_struct0) (\<lambda>band_struct.
          let m9 = mxSetField m8 0 ''Band'' band_struct in
          seq (calls Call_GDALClose) (\<lambda>_. ret m9))))))))"

subsection \<open>Reading and transposing the raster (the switch of mexFunction)\<close>

text \<open>\<^verbatim>\<open>a * b\<close> on \<^verbatim>\<open>int\<close>.\<close>

definition int_mul :: "int \<Rightarrow> int \<Rightarrow> int mex" where
  "int_mul a b = (if int_range (a * b) then ret (a * b) else raise Undefined_behaviour)"

text \<open>\<^verbatim>\<open>mxCalloc(n, size)\<close>: n elements, all zero. The count is converted to the unsigned
  \<^verbatim>\<open>size_t\<close>; a negative count becomes a size no allocation can serve.\<close>

definition mxCalloc :: "int \<Rightarrow> 'a \<Rightarrow> 'a list mex" where
  "mxCalloc n zero = (if n < 0 then raise Out_of_memory else ret (replicate (nat n) zero))"

text \<open>An access \<^verbatim>\<open>buffer[k]\<close> is inside the buffer.\<close>

definition in_bounds :: "int \<Rightarrow> 'a list \<Rightarrow> bool" where
  "in_bounds k buffer = (0 \<le> k \<and> k < int (length buffer))"

text \<open>The inner loop \<^verbatim>\<open>for (j = 0; j < xout; ++j)\<close> of the transposition, and the outer
  loop \<^verbatim>\<open>for (i = 0; i < yout; ++i)\<close>. \<open>xo\<close> and \<open>yo\<close> are the values of \<^verbatim>\<open>xout\<close> and
  \<^verbatim>\<open>yout\<close>.\<close>

function transpose_inner :: "'a list \<Rightarrow> int \<Rightarrow> int \<Rightarrow> int \<Rightarrow> int \<Rightarrow> 'a list \<Rightarrow> 'a list mex" where
  "transpose_inner void_buffer xo yo i j transpose_buffer =
     (if j < xo then
        (let index = i * xo + j;
             t_index = j * yo + i
         in if int_range index \<and> int_range t_index
               \<and> in_bounds index void_buffer \<and> in_bounds t_index transpose_buffer
            then transpose_inner void_buffer xo yo i (j + 1)
                   (transpose_buffer[nat t_index := void_buffer ! nat index])
            else raise Undefined_behaviour)
      else ret transpose_buffer)"
  by pat_completeness auto
termination
  by (relation "measure (\<lambda>(void_buffer, xo, yo, i, j, tb). nat (xo - j))") auto

function transpose_outer :: "'a list \<Rightarrow> int \<Rightarrow> int \<Rightarrow> int \<Rightarrow> 'a list \<Rightarrow> 'a list mex" where
  "transpose_outer void_buffer xo yo i transpose_buffer =
     (if i < yo then
        seq (transpose_inner void_buffer xo yo i 0 transpose_buffer) (\<lambda>tb.
          transpose_outer void_buffer xo yo (i + 1) tb)
      else ret transpose_buffer)"
  by pat_completeness auto
termination
  by (relation "measure (\<lambda>(void_buffer, xo, yo, i, tb). nat (yo - i))") auto

text \<open>\<^verbatim>\<open>transpose_void_buffer\<close>: a buffer of bytes or a buffer of doubles.\<close>

datatype void_buffer = Bytes "8 word list" | Doubles "double list"

text \<open>\<^verbatim>\<open>mxCreateNumericArray(2, rasterDims, classid, mxREAL)\<close> with \<^verbatim>\<open>rasterDims\<close> set from
  two \<^verbatim>\<open>int\<close>s: an array of zeros. The dimensions are unsigned (\<^verbatim>\<open>mwSize\<close>), so a negative
  \<^verbatim>\<open>int\<close> becomes a dimension that cannot be allocated.\<close>

definition mxCreateNumericArray_UINT8 :: "int \<Rightarrow> int \<Rightarrow> mxArray mex" where
  "mxCreateNumericArray_UINT8 d0 d1 =
     (if d0 < 0 \<or> d1 < 0 then raise Out_of_memory
      else ret (MxUInt8 (nat d0) (nat d1) (replicate (nat d0 * nat d1) 0)))"

definition mxCreateNumericArray_DOUBLE :: "int \<Rightarrow> int \<Rightarrow> mxArray mex" where
  "mxCreateNumericArray_DOUBLE d0 d1 =
     (if d0 < 0 \<or> d1 < 0 then raise Out_of_memory
      else ret (MxDouble (nat d0) (nat d1) (replicate (nat d0 * nat d1) (Finite 0))))"

text \<open>The two cases of the switch that read the raster. Each gives the new MATLAB
  array, the transposed buffer and \<^verbatim>\<open>out_type_size\<close>.\<close>

definition case_GDT_Byte :: "band \<Rightarrow> request \<Rightarrow> (mxArray \<times> void_buffer \<times> int) mex" where
  "case_GDT_Byte hBand v =
     (let out_type_size = GDALGetDataTypeSize GDT_Byte div 8 in
      seq (int_mul (xout v) (yout v)) (\<lambda>count.
      seq (mxCalloc count (0 :: 8 word)) (\<lambda>void_buffer0.
      seq (mxCalloc count (0 :: 8 word)) (\<lambda>transpose_buffer_byte.
      seq (calls (Call_GDALRasterIO (xorigin v) (yorigin v) (xextend v) (yextend v)
                    (xout v) (yout v) GDT_Byte)) (\<lambda>_.
      let void_buffer =
            map (GDALRasterIO_Byte hBand (xorigin v) (yorigin v) (xextend v) (yextend v)
                   (xout v) (yout v)) [0..<length void_buffer0]
      in
      seq (transpose_outer void_buffer (xout v) (yout v) 0 transpose_buffer_byte) (\<lambda>tb.
      seq (mxCreateNumericArray_UINT8 (yout v) (xout v)) (\<lambda>mxGDALraster.
        ret (mxGDALraster, Bytes tb, out_type_size))))))))"

definition case_GDT_Float64 :: "band \<Rightarrow> request \<Rightarrow> (mxArray \<times> void_buffer \<times> int) mex" where
  "case_GDT_Float64 hBand v =
     (let out_type_size = GDALGetDataTypeSize GDT_Float64 div 8 in
      seq (int_mul (xout v) (yout v)) (\<lambda>count.
      seq (mxCalloc count (Finite 0)) (\<lambda>void_buffer0.
      seq (mxCalloc count (Finite 0)) (\<lambda>transpose_buffer_float64.
      seq (calls (Call_GDALRasterIO (xorigin v) (yorigin v) (xextend v) (yextend v)
                    (xout v) (yout v) GDT_Float64)) (\<lambda>_.
      let void_buffer =
            map (GDALRasterIO_Float64 hBand (xorigin v) (yorigin v) (xextend v) (yextend v)
                   (xout v) (yout v)) [0..<length void_buffer0]
      in
      seq (transpose_outer void_buffer (xout v) (yout v) 0 transpose_buffer_float64) (\<lambda>tb.
      seq (mxCreateNumericArray_DOUBLE (yout v) (xout v)) (\<lambda>mxGDALraster.
        ret (mxGDALraster, Doubles tb, out_type_size))))))))"

text \<open>\<^verbatim>\<open>switch (gdal_type)\<close>.\<close>

fun raster_switch :: "band \<Rightarrow> GDALDataType \<Rightarrow> request \<Rightarrow> (mxArray \<times> void_buffer \<times> int) mex" where
  "raster_switch hBand GDT_Byte v = case_GDT_Byte hBand v"
| "raster_switch hBand GDT_UInt16 v = case_GDT_Float64 hBand v"
| "raster_switch hBand GDT_Int16 v = case_GDT_Float64 hBand v"
| "raster_switch hBand GDT_UInt32 v = case_GDT_Float64 hBand v"
| "raster_switch hBand GDT_Int32 v = case_GDT_Float64 hBand v"
| "raster_switch hBand GDT_Float32 v = case_GDT_Float64 hBand v"
| "raster_switch hBand GDT_Float64 v = case_GDT_Float64 hBand v"
| "raster_switch hBand gdal_type v =
     mexErrMsgTxt ''Unhandled GDALDataType %d.\<newline>'' [ArgType gdal_type]"

text \<open>\<^verbatim>\<open>memcpy(dst, src, nbytes)\<close> on buffers of elements: the first k elements of the
  source replace the first k elements of the destination; both must hold k elements.\<close>

definition copy_elements :: "'a list \<Rightarrow> 'a list \<Rightarrow> int \<Rightarrow> 'a list mex" where
  "copy_elements dst src k =
     (if 0 \<le> k \<and> nat k \<le> length src \<and> nat k \<le> length dst
      then ret (take (nat k) src @ drop (nat k) dst)
      else raise Undefined_behaviour)"

fun memcpy :: "mxArray \<Rightarrow> void_buffer \<Rightarrow> int \<Rightarrow> mxArray mex" where
  "memcpy (MxUInt8 m n dst) (Bytes src) nbytes =
     seq (copy_elements dst src nbytes) (\<lambda>d. ret (MxUInt8 m n d))"
| "memcpy (MxDouble m n dst) (Doubles src) nbytes =
     seq (copy_elements dst src (nbytes div 8)) (\<lambda>d. ret (MxDouble m n d))"
| "memcpy a b nbytes = raise Undefined_behaviour"

text \<open>Lines 385 to 464: the switch, then the copy into the MATLAB array.\<close>

definition fetch :: "band \<Rightarrow> GDALDataType \<Rightarrow> request \<Rightarrow> mxArray mex" where
  "fetch hBand gdal_type v =
     seq (raster_switch hBand gdal_type v) (\<lambda>(mxGDALraster0, transpose_void_buffer, out_type_size).
     seq (if_then (mexgdal_verbose v \<noteq> 0) (mexPrintf ''Now copying into matlab array...\<newline>'' [])) (\<lambda>_.
     seq (int_mul out_type_size (xout v)) (\<lambda>n1.
     seq (int_mul n1 (yout v)) (\<lambda>nbytes.
     seq (memcpy mxGDALraster0 transpose_void_buffer nbytes) (\<lambda>mxGDALraster.
     seq (if_then (mexgdal_verbose v \<noteq> 0) (mexPrintf ''Finished copying into matlab array...\<newline>'' [])) (\<lambda>_.
       ret mxGDALraster))))))"

subsection \<open>mexFunction\<close>

text \<open>The block \<^verbatim>\<open>if (mexgdal_verbose) { ... }\<close> of lines 349 to 380.\<close>

definition verbose_report :: "gdal \<Rightarrow> band \<Rightarrow> GDALDataType \<Rightarrow> request \<Rightarrow> int \<Rightarrow> int \<Rightarrow> unit mex" where
  "verbose_report lib hBand gdal_type v RasterXSize RasterYSize =
     seq (mexPrintf ''data type is %d\<newline>'' [ArgType gdal_type]) (\<lambda>_.
     seq (mexPrintf ''Block=%dx%d Type=%s, ColorInterp=%s\<newline>''
            [ArgInt (xextend v), ArgInt (yextend v),
             ArgStr (GDALGetDataTypeName lib (GDALGetRasterDataType hBand)),
             ArgStr (GDALGetColorInterpretationName hBand)]) (\<lambda>_.
     case GDALGetRasterMinimum hBand of (min0, bGotMin) \<Rightarrow>
     case GDALGetRasterMaximum hBand of (max0, bGotMax) \<Rightarrow>
     seq (if \<not> (bGotMin \<noteq> 0 \<and> bGotMax \<noteq> 0)
          then seq (calls Call_GDALComputeRasterMinMax) (\<lambda>_. ret (GDALComputeRasterMinMax hBand))
          else ret (min0, max0)) (\<lambda>(adfMinMax0, adfMinMax1).
     seq (mexPrintf ''Min=%.3fd, Max=%.3f\<newline>'' [ArgDouble adfMinMax0, ArgDouble adfMinMax1]) (\<lambda>_.
     seq (mexPrintf ''xOrigin = %d\<newline>'' [ArgInt (xorigin v)]) (\<lambda>_.
     seq (mexPrintf ''yOrigin = %d\<newline>'' [ArgInt (yorigin v)]) (\<lambda>_.
     seq (mexPrintf ''RasterXSize = %d\<newline>'' [ArgInt RasterXSize]) (\<lambda>_.
     seq (mexPrintf ''RasterYSize = %d\<newline>'' [ArgInt RasterYSize]) (\<lambda>_.
     seq (mexPrintf ''xExtend = %d\<newline>'' [ArgInt (xextend v)]) (\<lambda>_.
     seq (mexPrintf ''yExtend = %d\<newline>'' [ArgInt (yextend v)]) (\<lambda>_.
     seq (mexPrintf ''xOut = %d\<newline>'' [ArgInt (xout v)]) (\<lambda>_.
          mexPrintf ''yOut = %d\<newline>'' [ArgInt (yout v)])))))))))))"

text \<open>The values the ten variables are given before the options are read.\<close>

definition initial_request :: request where
  "initial_request =
     \<lparr>requested_band = 1, requested_overview = - 1, gdal_dump = 0, mexgdal_verbose = 1,
      xorigin = 0, yorigin = 0, xextend = - 1, yextend = - 1, xout = - 1, yout = - 1\<rparr>"

text \<open>\<^verbatim>\<open>mxGetString(a, buf, buflen)\<close>: the status and the characters copied.\<close>

fun mxGetString :: "mxArray \<Rightarrow> nat \<Rightarrow> int \<times> string" where
  "mxGetString (MxChar m n s) buflen =
     (if length s + 1 \<le> buflen then (0, s) else (1, take (buflen - 1) s))"
| "mxGetString a buflen = (1, [])"

text \<open>Lines 288 to 467 of mexFunction: open the file, choose the band or overview, fix
  the window, report, read and transpose, close.\<close>

definition read_raster :: "gdal \<Rightarrow> string \<Rightarrow> request \<Rightarrow> mxArray mex" where
  "read_raster lib gdal_filename v0 =
     seq (calls (Call_GDALOpen gdal_filename)) (\<lambda>_.
     case GDALOpen lib gdal_filename of
       None \<Rightarrow>
         seq (sprintf_error_msg ''Unable to open %s.\<newline>'' gdal_filename) (\<lambda>_.
           mexErrMsgTxt ''Unable to open %s.\<newline>'' [ArgStr gdal_filename])
     | Some hDataset \<Rightarrow>
         seq (if requested_overview v0 \<ge> 0
              then seq (deref (GDALGetRasterBand hDataset (requested_band v0))) (\<lambda>b.
                     ret (GDALGetOverview b (requested_overview v0)))
              else ret (GDALGetRasterBand hDataset (requested_band v0))) (\<lambda>hBand_pointer.
         seq (deref hBand_pointer) (\<lambda>hBand.
         let RasterXSize = GDALGetRasterXSize_hBand hBand;
             RasterYSize = GDALGetRasterYSize_hBand hBand
         in
         seq (window_planner v0 RasterXSize RasterYSize) (\<lambda>v.
         let gdal_type = GDALGetRasterDataType hBand in
         seq (if_then (mexgdal_verbose v \<noteq> 0)
                (verbose_report lib hBand gdal_type v RasterXSize RasterYSize)) (\<lambda>_.
         seq (if_then (mexgdal_verbose v \<noteq> 0) (mexPrintf ''Now reading into buffer...\<newline>'' [])) (\<lambda>_.
         seq (fetch hBand gdal_type v) (\<lambda>mxGDALraster.
         seq (calls Call_GDALClose) (\<lambda>_. ret mxGDALraster))))))))"

text \<open>Lines 213 to 275 of mexFunction: the checks of the arguments, the file name, and
  the options read into the ten variables. \<open>nlhs\<close> is the number of outputs asked for,
  \<open>prhs\<close> the inputs (\<open>nrhs\<close> is their number).\<close>

definition read_arguments :: "int \<Rightarrow> mxArray list \<Rightarrow> (string \<times> request) mex" where
  "read_arguments nlhs prhs =
     (let nrhs = int (length prhs) in
      seq (if_then (nlhs \<noteq> 1) (mexErrMsgTxt ''Only one output argument is allowed.'' [])) (\<lambda>_.
      seq (if_then (nrhs < 1) (mexErrMsgTxt ''At least one input argument is required.'' [])) (\<lambda>_.
      seq (if_then (nrhs > 2) (mexErrMsgTxt ''No more than two input arguments are allowed.'' [])) (\<lambda>_.
      let mx_input_gdal_file = prhs ! 0 in
      seq (if_then (\<not> mxIsChar mx_input_gdal_file)
             (mexErrMsgTxt ''Input file name must be a string\<newline>'' [])) (\<lambda>_.
      seq (if_then (mxGetM mx_input_gdal_file \<noteq> 1)
             (mexErrMsgTxt ''Input file name must be a row vector, not a column string\<newline>'' [])) (\<lambda>_.
      let buflen = mxGetN mx_input_gdal_file + 1 in
      case mxGetString mx_input_gdal_file buflen of (status, gdal_filename) \<Rightarrow>
      seq (if_then (status \<noteq> 0)
             (mexErrMsgTxt ''Not enough space for input file argument.\<newline>'' [])) (\<lambda>_.
      seq (if nrhs = 2
           then seq (if_then (\<not> mxIsStruct (prhs ! 1))
                       (mexErrMsgTxt ''2nd input argument must be a structure.\<newline>'' [])) (\<lambda>_.
                  unpack_input_options (prhs ! 1) initial_request)
           else ret initial_request) (\<lambda>v.
        ret (gdal_filename, v)))))))))"

text \<open>The gateway: the arguments, \<^verbatim>\<open>GDALAllRegister\<close>, then either the metadata or the
  raster. The result is \<^verbatim>\<open>plhs[0]\<close>.\<close>

definition mexFunction :: "gdal \<Rightarrow> int \<Rightarrow> mxArray list \<Rightarrow> mxArray mex" where
  "mexFunction lib nlhs prhs =
     seq (read_arguments nlhs prhs) (\<lambda>(gdal_filename, v).
     seq (calls Call_GDALAllRegister) (\<lambda>_.
       if gdal_dump v \<noteq> 0 then populate_metadata_struct lib gdal_filename
       else read_raster lib gdal_filename v))"

section \<open>Notions of the specification\<close>

text \<open>
  The extents and output sizes start at \<open>-1\<close> ("initial impossible default values" in
  the source's words) and keep that value until a field of the options structure
  overwrites it: a variable still at \<open>-1\<close> was not supplied.
\<close>

definition supplied :: "int \<Rightarrow> int option" where
  "supplied x = (if x = - 1 then None else Some x)"

text \<open>The class of an array, as \<^verbatim>\<open>mxGetClassID\<close> reports it.\<close>

datatype mxClassID =
  mxCHAR_CLASS | mxDOUBLE_CLASS | mxUINT8_CLASS | mxSTRUCT_CLASS | mxUNKNOWN_CLASS

fun mxGetClassID :: "mxArray \<Rightarrow> mxClassID" where
  "mxGetClassID (MxChar m n s) = mxCHAR_CLASS"
| "mxGetClassID (MxDouble m n ds) = mxDOUBLE_CLASS"
| "mxGetClassID (MxUInt8 m n bs) = mxUINT8_CLASS"
| "mxGetClassID (MxStruct m n names els) = mxSTRUCT_CLASS"
| "mxGetClassID (MxOther m n) = mxUNKNOWN_CLASS"

text \<open>A sample of a pixel buffer, of either element kind; the element at a linear index
  of a numeric array; and the element at a linear index of the decode buffer, that is of
  the buffer as \<^verbatim>\<open>GDALRasterIO\<close> fills it for the window of the request (bytes for a
  byte band, doubles otherwise).\<close>

datatype sample = Sample_Byte "8 word" | Sample_Double double

fun element :: "mxArray \<Rightarrow> nat \<Rightarrow> sample option" where
  "element (MxUInt8 m n bs) k = (if k < length bs then Some (Sample_Byte (bs ! k)) else None)"
| "element (MxDouble m n ds) k = (if k < length ds then Some (Sample_Double (ds ! k)) else None)"
| "element a k = None"

definition decoded :: "band \<Rightarrow> GDALDataType \<Rightarrow> request \<Rightarrow> nat \<Rightarrow> sample" where
  "decoded hBand gdal_type v k =
     (if gdal_type = GDT_Byte
      then Sample_Byte (GDALRasterIO_Byte hBand (xorigin v) (yorigin v) (xextend v) (yextend v)
                          (xout v) (yout v) k)
      else Sample_Double (GDALRasterIO_Float64 hBand (xorigin v) (yorigin v) (xextend v) (yextend v)
                            (xout v) (yout v) k))"

text \<open>The band or overview that \<^verbatim>\<open>mexFunction\<close> reads: the requested band, or the
  requested overview of it when one is requested (null when there is none).\<close>

definition selected_band :: "dataset \<Rightarrow> request \<Rightarrow> band option" where
  "selected_band hDataset v =
     (if requested_overview v \<ge> 0
      then (case GDALGetRasterBand hDataset (requested_band v) of
              None \<Rightarrow> None
            | Some b \<Rightarrow> GDALGetOverview b (requested_overview v))
      else GDALGetRasterBand hDataset (requested_band v))"

section \<open>Example sources\<close>

text \<open>
  A small library state for the concrete instances below: the file \<^verbatim>\<open>a.tif\<close> with a
  3 by 2 byte band and a 4 by 4 16-bit band that has one 2 by 2 overview, no internal
  georeferencing and a world file \<^verbatim>\<open>a.wld\<close>; the file \<^verbatim>\<open>c.tif\<close> with one band of
  complex samples; two registered drivers. The sample that a read leaves at index k of the
  buffer is 10 + k.
\<close>

definition byte_band :: band where
  "byte_band = Band 3 2 3 2 GDT_Byte (Finite 0) []
     (Finite 10, 1) (Finite 15, 1) (Finite 10, Finite 15) ''Gray''
     (\<lambda>xoff yoff xsize ysize bufx bufy k. of_nat (10 + k))
     (\<lambda>xoff yoff xsize ysize bufx bufy k. Finite (of_nat (10 + k)))"

definition int16_overview :: band where
  "int16_overview = Band 2 2 2 2 GDT_Int16 (Finite (- 9999)) []
     (Finite 0, 0) (Finite 0, 0) (Finite 10, Finite 13) ''Undefined''
     (\<lambda>xoff yoff xsize ysize bufx bufy k. of_nat (10 + k))
     (\<lambda>xoff yoff xsize ysize bufx bufy k. Finite (of_nat (10 + k)))"

definition int16_band :: band where
  "int16_band = Band 4 4 4 4 GDT_Int16 (Finite (- 9999)) [int16_overview]
     (Finite 0, 0) (Finite 0, 0) (Finite 10, Finite 25) ''Undefined''
     (\<lambda>xoff yoff xsize ysize bufx bufy k. of_nat (10 + k))
     (\<lambda>xoff yoff xsize ysize bufx bufy k. Finite (of_nat (10 + k)))"

definition complex_band :: band where
  "complex_band = Band 2 2 2 2 GDT_CInt16 (Finite 0) []
     (Finite 0, 0) (Finite 0, 0) (Finite 0, Finite 0) ''Undefined''
     (\<lambda>xoff yoff xsize ysize bufx bufy k. 0)
     (\<lambda>xoff yoff xsize ysize bufx bufy k. Finite 0)"

definition gtiff :: driver where
  "gtiff = \<lparr>GDALGetDriverShortName = ''GTiff'', GDALGetDriverLongName = ''GeoTIFF''\<rparr>"

definition png :: driver where
  "png = \<lparr>GDALGetDriverShortName = ''PNG'', GDALGetDriverLongName = ''Portable Network Graphics''\<rparr>"

definition identity_transform :: GeoTransform where
  "identity_transform = (Finite 0, Finite 1, Finite 0, Finite 0, Finite 0, Finite 1)"

definition world_file_transform :: GeoTransform where
  "world_file_transform = (Finite 100, Finite 2, Finite 0, Finite 200, Finite 0, Finite (- 2))"

definition a_tif :: dataset where
  "a_tif = \<lparr>GDALGetProjectionRef = [], GDALGetGeoTransform = (CE_Failure, identity_transform),
             GDALGetDatasetDriver = gtiff, GDALGetRasterXSize = 3, GDALGetRasterYSize = 2,
             raster_bands = [byte_band, int16_band]\<rparr>"

definition c_tif :: dataset where
  "c_tif = \<lparr>GDALGetProjectionRef = [], GDALGetGeoTransform = (CE_None, identity_transform),
             GDALGetDatasetDriver = gtiff, GDALGetRasterXSize = 2, GDALGetRasterYSize = 2,
             raster_bands = [complex_band]\<rparr>"

definition example_gdal :: gdal where
  "example_gdal =
     \<lparr>GDALOpen = (\<lambda>f. if f = ''a.tif'' then Some a_tif else if f = ''c.tif'' then Some c_tif else None),
      GDALReadWorldFile =
        (\<lambda>f ext adf. if f = ''a.tif'' \<and> ext = Some ''wld'' then (1, world_file_transform) else (0, adf)),
      drivers = [gtiff, png],
      GDAL_VERSION_NUM = 1500,
      GDALGetDataTypeName =
        (\<lambda>t. if t = GDT_Byte then ''Byte'' else if t = GDT_Int16 then ''Int16''
              else if t = GDT_CInt16 then ''CInt16'' else ''Unknown'')\<rparr>"

text \<open>The request for the whole 3 by 2 band, with the diagnostics off.\<close>

definition quiet_3x2 :: request where
  "quiet_3x2 = initial_request\<lparr>mexgdal_verbose := 0, xextend := 3, yextend := 2, xout := 3, yout := 2\<rparr>"

text \<open>
  The georeference resolver in the specification's words: a list of strategies, tried
  in order; the first one that succeeds ends the search; when none succeeds the
  transform is absent. A strategy is the GDAL call it makes and what the call does to
  the six-number array: whether it succeeded, and the array after it.
\<close>

type_synonym strategy = "gdal_call \<times> (GeoTransform \<Rightarrow> bool \<times> GeoTransform)"

fun first_success :: "strategy list \<Rightarrow> GeoTransform \<Rightarrow> gdal_call list \<times> bool \<times> GeoTransform" where
  "first_success [] adf = ([], False, adf)"
| "first_success ((c, s) # rest) adf =
     (case s adf of (ok, adf') \<Rightarrow>
        if ok then ([c], True, adf')
        else (case first_success rest adf' of (cs, r) \<Rightarrow> (c # cs, r)))"

text \<open>The four strategies, in the order of the specification: (1) the transform stored
  in the source, (2) the world file with the extension replaced by \<^verbatim>\<open>wld\<close>, (3) the world
  file with \<^verbatim>\<open>.wld\<close> appended (GDAL replaces the synthetic extension \<^verbatim>\<open>xxx\<close>), (4) for a
  library of version 1210 or later, GDAL's own guess (no extension given).\<close>

definition world_file_strategy :: "gdal \<Rightarrow> string \<Rightarrow> string option \<Rightarrow> strategy" where
  "world_file_strategy lib filename ext =
     (Call_GDALReadWorldFile filename ext,
      \<lambda>adf. case GDALReadWorldFile lib filename ext adf of (r, adf') \<Rightarrow> (r \<noteq> 0, adf'))"

definition georeference_strategies :: "gdal \<Rightarrow> string \<Rightarrow> dataset \<Rightarrow> strategy list" where
  "georeference_strategies lib gdal_filename hDataset =
     [(Call_GDALGetGeoTransform,
       \<lambda>adf. case GDALGetGeoTransform hDataset of (err, adf') \<Rightarrow> (err = CE_None, adf')),
      world_file_strategy lib gdal_filename (Some ''wld''),
      world_file_strategy lib (gdal_filename @ ''.xxx'') (Some ''wld'')]
     @ (if GDAL_VERSION_NUM lib \<ge> 1210 then [world_file_strategy lib gdal_filename None] else [])"






fun is_Warn :: "event \<Rightarrow> bool" where
  "is_Warn (Warn fmt args) = True"
| "is_Warn e = False"

text \<open>
  Events that tell the two paths of \<^verbatim>\<open>mexFunction\<close> apart: a windowed raster read is a
  call of \<^verbatim>\<open>GDALRasterIO\<close>; a georeference query is a call of \<^verbatim>\<open>GDALGetGeoTransform\<close> or
  of \<^verbatim>\<open>GDALReadWorldFile\<close>, which only \<^verbatim>\<open>populate_metadata_struct\<close> makes (through
  \<^verbatim>\<open>record_geotransform\<close>, for every file it can open).
\<close>

fun is_raster_read :: "event \<Rightarrow> bool" where
  "is_raster_read (Call (Call_GDALRasterIO xoff yoff xsize ysize bufx bufy t)) = True"
| "is_raster_read e = False"

fun is_georeference_query :: "event \<Rightarrow> bool" where
  "is_georeference_query (Call Call_GDALGetGeoTransform) = True"
| "is_georeference_query (Call (Call_GDALReadWorldFile f ext)) = True"
| "is_georeference_query e = False"

text \<open>
  Notions for the two-run statement about the verbose flag. A valid flag is a field that
  holds a double array whose first element converts to a C int. Two options structures are
  verbose variants of each other when both are structures with the same field names and,
  field by field, either the field is named verbose and both hold a valid flag, or the
  field has another name and both hold the same value. Two states of the ten variables
  agree except on verbose when the nine other variables are equal; two outcomes of the
  option resolver are the same up to verbose when both are the same error or both are
  states that agree except on verbose.
\<close>

fun valid_flag :: "mxArray option \<Rightarrow> bool" where
  "valid_flag (Some (MxDouble m n (d # ds))) = (\<not> isl (snd (int_of_double d)))"
| "valid_flag p = False"

definition verbose_variant :: "mxArray \<Rightarrow> mxArray \<Rightarrow> bool" where
  "verbose_variant a b =
     (mxIsStruct a \<and> mxIsStruct b \<and> mxGetNumberOfFields a = mxGetNumberOfFields b \<and>
      list_all (\<lambda>ifield.
         mxGetFieldNameByNumber a ifield = mxGetFieldNameByNumber b ifield \<and>
         (if mxGetFieldNameByNumber a ifield = Some ''verbose''
          then valid_flag (mxGetFieldByNumber a 0 ifield) \<and> valid_flag (mxGetFieldByNumber b 0 ifield)
          else mxGetFieldByNumber a 0 ifield = mxGetFieldByNumber b 0 ifield))
        [0..<mxGetNumberOfFields a])"

definition agree_except_verbose :: "request \<Rightarrow> request \<Rightarrow> bool" where
  "agree_except_verbose v w =
     (requested_band v = requested_band w \<and> requested_overview v = requested_overview w \<and>
      gdal_dump v = gdal_dump w \<and> xorigin v = xorigin w \<and> yorigin v = yorigin w \<and>
      xextend v = xextend w \<and> yextend v = yextend w \<and> xout v = xout w \<and> yout v = yout w)"

fun same_up_to_verbose :: "error + request \<Rightarrow> error + request \<Rightarrow> bool" where
  "same_up_to_verbose (Inl e) (Inl e') = (e = e')"
| "same_up_to_verbose (Inr v) (Inr w) = agree_except_verbose v w"
| "same_up_to_verbose r r' = False"

text \<open>
  The overviews of a band as the caller reads them in the dump. The Band array of a dump
  is the value of the field \<^verbatim>\<open>Band\<close> of the metadata structure. Each of its entries has
  the field \<^verbatim>\<open>Overview\<close> from the creation of the array; a field that the code never sets
  is read as the empty array (the header comment of \<^verbatim>\<open>populate_metadata_struct\<close>: "If
  empty, then there are no overviews"), and a field that was set shows one overview for
  each element of its array. \<open>overviews_shown\<close> is the number of overviews that an entry
  shows.
\<close>

definition overviews_shown :: "mxArray \<Rightarrow> nat \<Rightarrow> nat" where
  "overviews_shown band_struct index =
     (case mxGetField band_struct index ''Overview'' of
        None \<Rightarrow> 0
      | Some overview_struct \<Rightarrow> mxGetNumberOfElements overview_struct)"

definition dumped_bands :: "gdal \<Rightarrow> string \<Rightarrow> mxArray option" where
  "dumped_bands lib gdal_filename =
     (case snd (populate_metadata_struct lib gdal_filename) of
        Inl e \<Rightarrow> None
      | Inr metadata_struct \<Rightarrow> mxGetField metadata_struct 0 ''Band'')"


section \<open>Basic facts\<close>

lemma seq_ret [simp]: "seq (ret x) f = f x"
  by (simp add: seq_def ret_def split: prod.splits)

lemma seq_raise [simp]: "seq (raise e) f = raise e"
  by (simp add: seq_def raise_def)

lemma seq_mexErrMsgTxt [simp]: "seq (mexErrMsgTxt fmt args) f = mexErrMsgTxt fmt args"
  by (simp add: mexErrMsgTxt_def)

lemma snd_seq: "snd (seq m f) = (case snd m of Inl e \<Rightarrow> Inl e | Inr x \<Rightarrow> snd (f x))"
  by (cases m) (auto simp: seq_def split: sum.splits prod.splits)

lemma fst_seq: "fst (seq m f) = (case snd m of Inl e \<Rightarrow> fst m | Inr x \<Rightarrow> fst m @ fst (f x))"
  by (cases m) (auto simp: seq_def split: sum.splits prod.splits)

lemma seq_Inr_iff:
  "seq m f = (l, Inr y) \<longleftrightarrow> (\<exists>l1 x l2. m = (l1, Inr x) \<and> f x = (l2, Inr y) \<and> l = l1 @ l2)"
  by (cases m) (auto simp: seq_def split: sum.splits prod.splits)

lemma ret_eq [simp]: "ret x = (l, r) \<longleftrightarrow> l = [] \<and> r = Inr x"
  by (auto simp: ret_def)

lemma raise_eq [simp]: "raise e = (l, r) \<longleftrightarrow> l = [] \<and> r = Inl e"
  by (auto simp: raise_def)

lemma int_sub_Inr: "int_sub a b = (l, Inr r) \<longleftrightarrow> l = [] \<and> r = a - b \<and> int_range (a - b)"
  by (auto simp: int_sub_def)

lemma seq_nil [simp]: "seq ([], Inr x) f = f x"
  by (simp add: seq_def split: prod.splits)

declare transpose_inner.simps [simp del] transpose_outer.simps [simp del]
  unpack_loop.simps [simp del] overview_loop.simps [simp del]
  driver_loop.simps [simp del] band_loop.simps [simp del]

subsection \<open>The transposition loops\<close>

lemma index_unique:
  fixes c c' r r' yo :: int
  assumes "0 \<le> r" "r < yo" "0 \<le> r'" "r' < yo" "c * yo + r = c' * yo + r'"
  shows "r = r' \<and> c = c'"
proof -
  have "(c * yo + r) mod yo = (c' * yo + r') mod yo" using assms(5) by simp
  then have r: "r = r'" using assms(1-4) by simp
  with assms(5) have "c * yo = c' * yo" by simp
  moreover have "yo \<noteq> 0" using assms by linarith
  ultimately show ?thesis using r by simp
qed

lemma cell_bounds:
  fixes r c xo yo :: int
  assumes "0 \<le> r" "r < yo" "0 \<le> c" "c < xo"
  shows "0 \<le> r * xo + c" and "r * xo + c < xo * yo" and "0 \<le> c * yo + r" and "c * yo + r < xo * yo"
proof -
  have a: "r * xo \<le> (yo - 1) * xo" using assms by (intro mult_right_mono) auto
  have b: "c * yo \<le> (xo - 1) * yo" using assms by (intro mult_right_mono) auto
  show "0 \<le> r * xo + c" using assms by simp
  show "0 \<le> c * yo + r" using assms by simp
  show "r * xo + c < xo * yo" using a assms by (simp add: algebra_simps)
  show "c * yo + r < xo * yo" using b assms by (simp add: algebra_simps)
qed

lemma transpose_inner_correct:
  assumes "0 \<le> i" "i < yo" "0 \<le> j"
    and "length vb = nat (xo * yo)" "length tb = nat (xo * yo)" "int_range (xo * yo)"
  shows "\<exists>tb'. transpose_inner vb xo yo i j tb = ([], Inr tb') \<and> length tb' = length tb \<and>
           (\<forall>c. j \<le> c \<and> c < xo \<longrightarrow> tb' ! nat (c * yo + i) = vb ! nat (i * xo + c)) \<and>
           (\<forall>k < length tb. (\<forall>c. j \<le> c \<and> c < xo \<longrightarrow> k \<noteq> nat (c * yo + i)) \<longrightarrow> tb' ! k = tb ! k)"
  using assms
proof (induction vb xo yo i j tb rule: transpose_inner.induct)
  case (1 vb xo yo i j tb)
  show ?case
  proof (cases "j < xo")
    case False
    then have "transpose_inner vb xo yo i j tb = ([], Inr tb)" by (subst transpose_inner.simps) simp
    moreover have "\<forall>c. j \<le> c \<and> c < xo \<longrightarrow> tb ! nat (c * yo + i) = vb ! nat (i * xo + c)" using False by auto
    ultimately show ?thesis by auto
  next
    case True
    let ?index = "i * xo + j" and ?t = "j * yo + i"
    from cell_bounds [of i yo j xo] 1 True
    have b: "0 \<le> ?index" "?index < xo * yo" "0 \<le> ?t" "?t < xo * yo" by auto
    have rng: "int_range ?index" "int_range ?t"
      using b 1(7) by (auto simp: int_range_def INT_MIN_def INT_MAX_def)
    have inb: "in_bounds ?index vb" "in_bounds ?t tb"
      using b 1(5,6) by (auto simp: in_bounds_def)
    let ?tb1 = "tb[nat ?t := vb ! nat ?index]"
    have "\<exists>tb'. transpose_inner vb xo yo i (j + 1) ?tb1 = ([], Inr tb') \<and> length tb' = length ?tb1 \<and>
           (\<forall>c. j + 1 \<le> c \<and> c < xo \<longrightarrow> tb' ! nat (c * yo + i) = vb ! nat (i * xo + c)) \<and>
           (\<forall>k < length ?tb1. (\<forall>c. j + 1 \<le> c \<and> c < xo \<longrightarrow> k \<noteq> nat (c * yo + i)) \<longrightarrow> tb' ! k = ?tb1 ! k)"
      using 1 True rng inb by (intro "1.IH") auto
    then obtain tb' where tb': "transpose_inner vb xo yo i (j + 1) ?tb1 = ([], Inr tb')"
      "length tb' = length tb"
      "\<forall>c. j + 1 \<le> c \<and> c < xo \<longrightarrow> tb' ! nat (c * yo + i) = vb ! nat (i * xo + c)"
      "\<forall>k < length tb. (\<forall>c. j + 1 \<le> c \<and> c < xo \<longrightarrow> k \<noteq> nat (c * yo + i)) \<longrightarrow> tb' ! k = ?tb1 ! k"
      by auto
    have run: "transpose_inner vb xo yo i j tb = ([], Inr tb')"
      using True rng inb tb'(1) by (subst transpose_inner.simps) (simp add: Let_def)
    have tlt: "nat ?t < length tb" using b 1(6) by simp
    have here: "tb' ! nat ?t = vb ! nat ?index"
    proof -
      have "\<forall>c. j + 1 \<le> c \<and> c < xo \<longrightarrow> nat ?t \<noteq> nat (c * yo + i)"
      proof (intro allI impI)
        fix c assume c: "j + 1 \<le> c \<and> c < xo"
        show "nat ?t \<noteq> nat (c * yo + i)"
        proof
          assume "nat ?t = nat (c * yo + i)"
          moreover have "0 \<le> c * yo + i" using c 1 by simp
          ultimately have "j * yo + i = c * yo + i" using b by linarith
          from index_unique [OF _ _ _ _ this] 1 have "j = c" by auto
          with c show False by simp
        qed
      qed
      with tb'(4) tlt have "tb' ! nat ?t = ?tb1 ! nat ?t" by blast
      then show ?thesis using tlt by simp
    qed
    have set: "\<forall>c. j \<le> c \<and> c < xo \<longrightarrow> tb' ! nat (c * yo + i) = vb ! nat (i * xo + c)"
    proof (intro allI impI)
      fix c assume c: "j \<le> c \<and> c < xo"
      show "tb' ! nat (c * yo + i) = vb ! nat (i * xo + c)"
      proof (cases "c = j")
        case True then show ?thesis using here by simp
      next
        case False then show ?thesis using c tb'(3) by auto
      qed
    qed
    have keep: "\<forall>k < length tb. (\<forall>c. j \<le> c \<and> c < xo \<longrightarrow> k \<noteq> nat (c * yo + i)) \<longrightarrow> tb' ! k = tb ! k"
    proof (intro allI impI)
      fix k assume k: "k < length tb" and ne: "\<forall>c. j \<le> c \<and> c < xo \<longrightarrow> k \<noteq> nat (c * yo + i)"
      from ne True have "k \<noteq> nat ?t" by auto
      moreover from ne have "\<forall>c. j + 1 \<le> c \<and> c < xo \<longrightarrow> k \<noteq> nat (c * yo + i)" by auto
      ultimately show "tb' ! k = tb ! k" using tb'(4) k by auto
    qed
    show ?thesis using run tb'(2) set keep by blast
  qed
qed


lemma transpose_outer_correct:
  assumes "0 \<le> i" "0 \<le> xo"
    and "length vb = nat (xo * yo)" "length tb = nat (xo * yo)" "int_range (xo * yo)"
  shows "\<exists>tb'. transpose_outer vb xo yo i tb = ([], Inr tb') \<and> length tb' = length tb \<and>
           (\<forall>r c. i \<le> r \<and> r < yo \<and> 0 \<le> c \<and> c < xo \<longrightarrow>
              tb' ! nat (c * yo + r) = vb ! nat (r * xo + c)) \<and>
           (\<forall>k < length tb. (\<forall>r c. i \<le> r \<and> r < yo \<and> 0 \<le> c \<and> c < xo \<longrightarrow> k \<noteq> nat (c * yo + r))
              \<longrightarrow> tb' ! k = tb ! k)"
  using assms
proof (induction vb xo yo i tb rule: transpose_outer.induct)
  case (1 vb xo yo i tb)
  show ?case
  proof (cases "i < yo")
    case False
    then have "transpose_outer vb xo yo i tb = ([], Inr tb)"
      by (subst transpose_outer.simps) simp
    moreover have "\<forall>r c. i \<le> r \<and> r < yo \<and> 0 \<le> c \<and> c < xo \<longrightarrow>
        tb ! nat (c * yo + r) = vb ! nat (r * xo + c)"
      using False by auto
    ultimately show ?thesis by auto
  next
    case True
    have i0: "0 \<le> i" and x0: "0 \<le> xo" and lv: "length vb = nat (xo * yo)"
      and lt: "length tb = nat (xo * yo)" and rg: "int_range (xo * yo)"
      using 1 by auto
    from transpose_inner_correct [OF i0 True order_refl lv lt rg]
    obtain tb1 where tb1: "transpose_inner vb xo yo i 0 tb = ([], Inr tb1)"
      and l1: "length tb1 = length tb"
      and s1: "\<forall>c. 0 \<le> c \<and> c < xo \<longrightarrow> tb1 ! nat (c * yo + i) = vb ! nat (i * xo + c)"
      and k1: "\<forall>k < length tb. (\<forall>c. 0 \<le> c \<and> c < xo \<longrightarrow> k \<noteq> nat (c * yo + i)) \<longrightarrow> tb1 ! k = tb ! k"
      by blast
    have i1: "0 \<le> i + 1" using i0 by simp
    have lt1: "length tb1 = nat (xo * yo)" using l1 lt by simp
    from "1.IH" [OF True i1 x0 lv lt1 rg]
    obtain tb' where run': "transpose_outer vb xo yo (i + 1) tb1 = ([], Inr tb')"
      and l': "length tb' = length tb1"
      and s': "\<forall>r c. i + 1 \<le> r \<and> r < yo \<and> 0 \<le> c \<and> c < xo \<longrightarrow>
              tb' ! nat (c * yo + r) = vb ! nat (r * xo + c)"
      and k': "\<forall>k < length tb1. (\<forall>r c. i + 1 \<le> r \<and> r < yo \<and> 0 \<le> c \<and> c < xo \<longrightarrow> k \<noteq> nat (c * yo + r))
              \<longrightarrow> tb' ! k = tb1 ! k"
      by blast
    have run: "transpose_outer vb xo yo i tb = ([], Inr tb')"
      using True tb1 run' by (subst transpose_outer.simps) simp
    have set: "\<forall>r c. i \<le> r \<and> r < yo \<and> 0 \<le> c \<and> c < xo \<longrightarrow>
              tb' ! nat (c * yo + r) = vb ! nat (r * xo + c)"
    proof (intro allI impI)
      fix r c assume rc: "i \<le> r \<and> r < yo \<and> 0 \<le> c \<and> c < xo"
      show "tb' ! nat (c * yo + r) = vb ! nat (r * xo + c)"
      proof (cases "r = i")
        case False
        then show ?thesis using rc s' by auto
      next
        case r: True
        from cell_bounds [of i yo c xo] rc i0 True
        have b: "0 \<le> c * yo + i" "c * yo + i < xo * yo" by auto
        then have lt2: "nat (c * yo + i) < length tb1" using lt1 by simp
        have "\<forall>r' c'. i + 1 \<le> r' \<and> r' < yo \<and> 0 \<le> c' \<and> c' < xo \<longrightarrow> nat (c * yo + i) \<noteq> nat (c' * yo + r')"
        proof (intro allI impI)
          fix r' c' assume h: "i + 1 \<le> r' \<and> r' < yo \<and> 0 \<le> c' \<and> c' < xo"
          show "nat (c * yo + i) \<noteq> nat (c' * yo + r')"
          proof
            assume e: "nat (c * yo + i) = nat (c' * yo + r')"
            have "0 \<le> c' * yo + r'" using h i0 by simp
            with e b have e': "c * yo + i = c' * yo + r'" by linarith
            have "i = r'" using index_unique [OF i0 True _ _ e'] h i0 by auto
            with h show False by simp
          qed
        qed
        with k' lt2 have "tb' ! nat (c * yo + i) = tb1 ! nat (c * yo + i)" by blast
        then show ?thesis using s1 rc r by auto
      qed
    qed
    have keep: "\<forall>k < length tb. (\<forall>r c. i \<le> r \<and> r < yo \<and> 0 \<le> c \<and> c < xo \<longrightarrow> k \<noteq> nat (c * yo + r))
              \<longrightarrow> tb' ! k = tb ! k"
    proof (intro allI impI)
      fix k assume k: "k < length tb"
        and ne: "\<forall>r c. i \<le> r \<and> r < yo \<and> 0 \<le> c \<and> c < xo \<longrightarrow> k \<noteq> nat (c * yo + r)"
      have a: "\<forall>r c. i + 1 \<le> r \<and> r < yo \<and> 0 \<le> c \<and> c < xo \<longrightarrow> k \<noteq> nat (c * yo + r)"
        using ne by auto
      have b: "\<forall>c. 0 \<le> c \<and> c < xo \<longrightarrow> k \<noteq> nat (c * yo + i)"
        using ne True by auto
      have "tb' ! k = tb1 ! k" using k' a k l1 by auto
      also have "tb1 ! k = tb ! k" using k1 b k by auto
      finally show "tb' ! k = tb ! k" .
    qed
    show ?thesis using run l' l1 set keep by auto
  qed
qed


lemma int_mul_Inr: "int_mul a b = (l, Inr r) \<longleftrightarrow> l = [] \<and> r = a * b \<and> int_range (a * b)"
  by (auto simp: int_mul_def)

lemma mxCalloc_Inr: "mxCalloc n z = (l, Inr b) \<longleftrightarrow> l = [] \<and> 0 \<le> n \<and> b = replicate (nat n) z"
  by (auto simp: mxCalloc_def)

lemma case_GDT_Byte_pre:
  assumes "case_GDT_Byte hBand v = (l, Inr x)"
  shows "0 \<le> xout v \<and> 0 \<le> yout v \<and> int_range (xout v * yout v)"
  using assms
  by (auto simp: case_GDT_Byte_def Let_def seq_Inr_iff int_mul_Inr mxCalloc_Inr
      mxCreateNumericArray_UINT8_def split: if_splits)

lemma case_GDT_Float64_pre:
  assumes "case_GDT_Float64 hBand v = (l, Inr x)"
  shows "0 \<le> xout v \<and> 0 \<le> yout v \<and> int_range (xout v * yout v)"
  using assms
  by (auto simp: case_GDT_Float64_def Let_def seq_Inr_iff int_mul_Inr mxCalloc_Inr
      mxCreateNumericArray_DOUBLE_def split: if_splits)

lemma case_GDT_Byte_correct:
  assumes x0: "0 \<le> xout v" and y0: "0 \<le> yout v" and rg: "int_range (xout v * yout v)"
  shows "\<exists>tb. case_GDT_Byte hBand v =
           ([Call (Call_GDALRasterIO (xorigin v) (yorigin v) (xextend v) (yextend v) (xout v) (yout v) GDT_Byte)],
            Inr (MxUInt8 (nat (yout v)) (nat (xout v)) (replicate (nat (yout v) * nat (xout v)) 0), Bytes tb, 1))
         \<and> length tb = nat (xout v * yout v)
         \<and> (\<forall>r c. 0 \<le> r \<and> r < yout v \<and> 0 \<le> c \<and> c < xout v \<longrightarrow>
               tb ! nat (c * yout v + r) =
               GDALRasterIO_Byte hBand (xorigin v) (yorigin v) (xextend v) (yextend v) (xout v) (yout v)
                 (nat (r * xout v + c)))"
proof -
  let ?n = "nat (xout v * yout v)"
  let ?f = "GDALRasterIO_Byte hBand (xorigin v) (yorigin v) (xextend v) (yextend v) (xout v) (yout v)"
  let ?vb = "map ?f [0..<?n]"
  have cnt: "0 \<le> xout v * yout v" using x0 y0 by simp
  from transpose_outer_correct [of 0 "xout v" ?vb "yout v" "replicate ?n (0 :: 8 word)"] x0 rg
  obtain tb where run: "transpose_outer ?vb (xout v) (yout v) 0 (replicate ?n 0) = ([], Inr tb)"
    and len: "length tb = ?n"
    and set: "\<forall>r c. 0 \<le> r \<and> r < yout v \<and> 0 \<le> c \<and> c < xout v \<longrightarrow>
              tb ! nat (c * yout v + r) = ?vb ! nat (r * xout v + c)"
    by auto
  have cells: "\<forall>r c. 0 \<le> r \<and> r < yout v \<and> 0 \<le> c \<and> c < xout v \<longrightarrow>
               tb ! nat (c * yout v + r) = ?f (nat (r * xout v + c))"
  proof (intro allI impI)
    fix r c assume h: "0 \<le> r \<and> r < yout v \<and> 0 \<le> c \<and> c < xout v"
    from cell_bounds [of r "yout v" c "xout v"] h
    have "nat (r * xout v + c) < ?n" by auto
    then have "?vb ! nat (r * xout v + c) = ?f (nat (r * xout v + c))" by simp
    with set h show "tb ! nat (c * yout v + r) = ?f (nat (r * xout v + c))" by auto
  qed
  have "case_GDT_Byte hBand v =
           ([Call (Call_GDALRasterIO (xorigin v) (yorigin v) (xextend v) (yextend v) (xout v) (yout v) GDT_Byte)],
            Inr (MxUInt8 (nat (yout v)) (nat (xout v)) (replicate (nat (yout v) * nat (xout v)) 0), Bytes tb, 1))"
  proof -
    have a: "int_mul (xout v) (yout v) = ret (xout v * yout v)"
      using rg by (simp add: int_mul_def)
    have b: "mxCalloc (xout v * yout v) (0 :: 8 word) = ret (replicate ?n 0)"
      using cnt by (simp add: mxCalloc_def)
    have c: "mxCreateNumericArray_UINT8 (yout v) (xout v) =
        ret (MxUInt8 (nat (yout v)) (nat (xout v)) (replicate (nat (yout v) * nat (xout v)) 0))"
      using x0 y0 by (simp add: mxCreateNumericArray_UINT8_def)
    show ?thesis
      unfolding case_GDT_Byte_def Let_def a b c seq_ret
      by (simp add: run calls_def seq_def ret_def)
  qed
  with len cells show ?thesis by blast
qed


lemma case_GDT_Float64_correct:
  assumes x0: "0 \<le> xout v" and y0: "0 \<le> yout v" and rg: "int_range (xout v * yout v)"
  shows "\<exists>tb. case_GDT_Float64 hBand v =
           ([Call (Call_GDALRasterIO (xorigin v) (yorigin v) (xextend v) (yextend v) (xout v) (yout v) GDT_Float64)],
            Inr (MxDouble (nat (yout v)) (nat (xout v)) (replicate (nat (yout v) * nat (xout v)) (Finite 0)),
                 Doubles tb, 8))
         \<and> length tb = nat (xout v * yout v)
         \<and> (\<forall>r c. 0 \<le> r \<and> r < yout v \<and> 0 \<le> c \<and> c < xout v \<longrightarrow>
               tb ! nat (c * yout v + r) =
               GDALRasterIO_Float64 hBand (xorigin v) (yorigin v) (xextend v) (yextend v) (xout v) (yout v)
                 (nat (r * xout v + c)))"
proof -
  let ?n = "nat (xout v * yout v)"
  let ?f = "GDALRasterIO_Float64 hBand (xorigin v) (yorigin v) (xextend v) (yextend v) (xout v) (yout v)"
  let ?vb = "map ?f [0..<?n]"
  have cnt: "0 \<le> xout v * yout v" using x0 y0 by simp
  from transpose_outer_correct [of 0 "xout v" ?vb "yout v" "replicate ?n (Finite 0)"] x0 rg
  obtain tb where run: "transpose_outer ?vb (xout v) (yout v) 0 (replicate ?n (Finite 0)) = ([], Inr tb)"
    and len: "length tb = ?n"
    and set: "\<forall>r c. 0 \<le> r \<and> r < yout v \<and> 0 \<le> c \<and> c < xout v \<longrightarrow>
              tb ! nat (c * yout v + r) = ?vb ! nat (r * xout v + c)"
    by auto
  have cells: "\<forall>r c. 0 \<le> r \<and> r < yout v \<and> 0 \<le> c \<and> c < xout v \<longrightarrow>
               tb ! nat (c * yout v + r) = ?f (nat (r * xout v + c))"
  proof (intro allI impI)
    fix r c assume h: "0 \<le> r \<and> r < yout v \<and> 0 \<le> c \<and> c < xout v"
    from cell_bounds [of r "yout v" c "xout v"] h
    have "nat (r * xout v + c) < ?n" by auto
    then have "?vb ! nat (r * xout v + c) = ?f (nat (r * xout v + c))" by simp
    with set h show "tb ! nat (c * yout v + r) = ?f (nat (r * xout v + c))" by auto
  qed
  have "case_GDT_Float64 hBand v =
           ([Call (Call_GDALRasterIO (xorigin v) (yorigin v) (xextend v) (yextend v) (xout v) (yout v) GDT_Float64)],
            Inr (MxDouble (nat (yout v)) (nat (xout v)) (replicate (nat (yout v) * nat (xout v)) (Finite 0)),
                 Doubles tb, 8))"
  proof -
    have a: "int_mul (xout v) (yout v) = ret (xout v * yout v)"
      using rg by (simp add: int_mul_def)
    have b: "mxCalloc (xout v * yout v) (Finite 0) = ret (replicate ?n (Finite 0))"
      using cnt by (simp add: mxCalloc_def)
    have c: "mxCreateNumericArray_DOUBLE (yout v) (xout v) =
        ret (MxDouble (nat (yout v)) (nat (xout v)) (replicate (nat (yout v) * nat (xout v)) (Finite 0)))"
      using x0 y0 by (simp add: mxCreateNumericArray_DOUBLE_def)
    show ?thesis
      unfolding case_GDT_Float64_def Let_def a b c seq_ret
      by (simp add: run calls_def seq_def ret_def)
  qed
  with len cells show ?thesis by blast
qed

lemma nat_cell:
  assumes "0 \<le> xo" "0 \<le> yo"
  shows "nat (int c * yo + int r) = c * nat yo + r" and "nat (int r * xo + int c) = r * nat xo + c"
  using assms by (simp_all add: nat_add_distrib nat_mult_distrib)

lemma copy_all: "length src = n \<Longrightarrow> length dst = n \<Longrightarrow> copy_elements dst src (int n) = ret src"
  by (simp add: copy_elements_def)


lemma snd_if_then_print [simp]: "snd (if_then c (mexPrintf fmt args)) = Inr ()"
  by (simp add: if_then_def mexPrintf_def ret_def)

lemma snd_ret [simp]: "snd (ret x) = Inr x" by (simp add: ret_def)
lemma fst_ret [simp]: "fst (ret x) = []" by (simp add: ret_def)
lemma snd_raise [simp]: "snd (raise e) = Inl e" by (simp add: raise_def)
lemma fst_raise [simp]: "fst (raise e) = []" by (simp add: raise_def)

lemma fetch_Byte_pre:
  assumes "fetch hBand GDT_Byte v = (l, Inr a)"
  shows "0 \<le> xout v \<and> 0 \<le> yout v \<and> int_range (xout v * yout v) \<and> int_range (xout v)"
proof -
  from assms obtain l1 x where sw: "case_GDT_Byte hBand v = (l1, Inr x)"
    by (auto simp: fetch_def seq_Inr_iff)
  from case_GDT_Byte_pre [OF sw] have p: "0 \<le> xout v \<and> 0 \<le> yout v \<and> int_range (xout v * yout v)" .
  from case_GDT_Byte_correct [of v hBand] p sw have sz: "snd (snd x) = 1" by auto
  from assms sw sz have "int_range (xout v)"
    by (cases x) (auto simp: fetch_def seq_Inr_iff int_mul_Inr)
  with p show ?thesis by simp
qed

lemma fetch_Byte_correct:
  assumes x0: "0 \<le> xout v" and y0: "0 \<le> yout v" and rg: "int_range (xout v * yout v)"
    and rx: "int_range (xout v)"
  shows "\<exists>tb. snd (fetch hBand GDT_Byte v) = Inr (MxUInt8 (nat (yout v)) (nat (xout v)) tb)
         \<and> length tb = nat (yout v) * nat (xout v)
         \<and> (\<forall>row < nat (yout v). \<forall>col < nat (xout v).
               tb ! (col * nat (yout v) + row) =
               GDALRasterIO_Byte hBand (xorigin v) (yorigin v) (xextend v) (yextend v) (xout v) (yout v)
                 (row * nat (xout v) + col))"
proof -
  let ?f = "GDALRasterIO_Byte hBand (xorigin v) (yorigin v) (xextend v) (yextend v) (xout v) (yout v)"
  from case_GDT_Byte_correct [OF x0 y0 rg, of hBand]
  obtain tb where sw: "case_GDT_Byte hBand v =
           ([Call (Call_GDALRasterIO (xorigin v) (yorigin v) (xextend v) (yextend v) (xout v) (yout v) GDT_Byte)],
            Inr (MxUInt8 (nat (yout v)) (nat (xout v)) (replicate (nat (yout v) * nat (xout v)) 0), Bytes tb, 1))"
    and len: "length tb = nat (xout v * yout v)"
    and cells: "\<forall>r c. 0 \<le> r \<and> r < yout v \<and> 0 \<le> c \<and> c < xout v \<longrightarrow>
               tb ! nat (c * yout v + r) = ?f (nat (r * xout v + c))"
    by blast
  have n: "nat (xout v * yout v) = nat (yout v) * nat (xout v)"
    using x0 y0 by (simp add: nat_mult_distrib mult.commute)
  have m1: "int_mul 1 (xout v) = ret (xout v)" using rx by (simp add: int_mul_def)
  have m2: "int_mul (xout v) (yout v) = ret (xout v * yout v)" using rg by (simp add: int_mul_def)
  have cp: "copy_elements (replicate (nat (yout v) * nat (xout v)) 0) tb (xout v * yout v) = ret tb"
    using len n x0 y0 by (simp add: copy_elements_def)
  have res: "snd (fetch hBand GDT_Byte v) = Inr (MxUInt8 (nat (yout v)) (nat (xout v)) tb)"
    by (simp add: fetch_def sw snd_seq m1 m2 cp)
  have c2: "\<forall>row < nat (yout v). \<forall>col < nat (xout v).
               tb ! (col * nat (yout v) + row) = ?f (row * nat (xout v) + col)"
  proof (intro allI impI)
    fix row col assume r: "row < nat (yout v)" and c: "col < nat (xout v)"
    have "tb ! nat (int col * yout v + int row) = ?f (nat (int row * xout v + int col))"
      using cells r c by (intro cells [rule_format]) auto
    then show "tb ! (col * nat (yout v) + row) = ?f (row * nat (xout v) + col)"
      using nat_cell [OF x0 y0] by simp
  qed
  show ?thesis using res len n c2 by auto
qed


lemma raster_switch_wide:
  "gdal_type \<in> {GDT_UInt16, GDT_Int16, GDT_UInt32, GDT_Int32, GDT_Float32, GDT_Float64} \<Longrightarrow>
   raster_switch hBand gdal_type v = case_GDT_Float64 hBand v"
  by auto

lemma raster_switch_unsupported:
  "gdal_type \<notin> {GDT_Byte, GDT_UInt16, GDT_Int16, GDT_UInt32, GDT_Int32, GDT_Float32, GDT_Float64} \<Longrightarrow>
   raster_switch hBand gdal_type v = mexErrMsgTxt ''Unhandled GDALDataType %d.\<newline>'' [ArgType gdal_type]"
  by (cases gdal_type) auto

lemma fetch_wide_pre:
  assumes "fetch hBand gdal_type v = (l, Inr a)"
    and w: "gdal_type \<in> {GDT_UInt16, GDT_Int16, GDT_UInt32, GDT_Int32, GDT_Float32, GDT_Float64}"
  shows "0 \<le> xout v \<and> 0 \<le> yout v \<and> int_range (8 * xout v) \<and> int_range (8 * xout v * yout v)"
proof -
  from assms obtain l1 x where sw: "case_GDT_Float64 hBand v = (l1, Inr x)"
    by (auto simp: fetch_def seq_Inr_iff raster_switch_wide [OF w])
  from case_GDT_Float64_pre [OF sw] have p: "0 \<le> xout v \<and> 0 \<le> yout v \<and> int_range (xout v * yout v)" .
  from case_GDT_Float64_correct [of v hBand] p sw have sz: "snd (snd x) = 8" by auto
  from assms sw sz have "int_range (8 * xout v) \<and> int_range (8 * xout v * yout v)"
    by (cases x) (auto simp: fetch_def seq_Inr_iff int_mul_Inr raster_switch_wide [OF w])
  with p show ?thesis by simp
qed

lemma fetch_wide_correct:
  assumes w: "gdal_type \<in> {GDT_UInt16, GDT_Int16, GDT_UInt32, GDT_Int32, GDT_Float32, GDT_Float64}"
    and x0: "0 \<le> xout v" and y0: "0 \<le> yout v"
    and r1: "int_range (8 * xout v)" and r2: "int_range (8 * xout v * yout v)"
  shows "\<exists>tb. snd (fetch hBand gdal_type v) = Inr (MxDouble (nat (yout v)) (nat (xout v)) tb)
         \<and> length tb = nat (yout v) * nat (xout v)
         \<and> (\<forall>row < nat (yout v). \<forall>col < nat (xout v).
               tb ! (col * nat (yout v) + row) =
               GDALRasterIO_Float64 hBand (xorigin v) (yorigin v) (xextend v) (yextend v) (xout v) (yout v)
                 (row * nat (xout v) + col))"
proof -
  let ?f = "GDALRasterIO_Float64 hBand (xorigin v) (yorigin v) (xextend v) (yextend v) (xout v) (yout v)"
  have cnt: "0 \<le> xout v * yout v" using x0 y0 by simp
  have rg: "int_range (xout v * yout v)"
    using r2 cnt by (simp add: int_range_def INT_MIN_def INT_MAX_def)
  from case_GDT_Float64_correct [OF x0 y0 rg, of hBand]
  obtain tb where sw: "case_GDT_Float64 hBand v =
           ([Call (Call_GDALRasterIO (xorigin v) (yorigin v) (xextend v) (yextend v) (xout v) (yout v) GDT_Float64)],
            Inr (MxDouble (nat (yout v)) (nat (xout v)) (replicate (nat (yout v) * nat (xout v)) (Finite 0)),
                 Doubles tb, 8))"
    and len: "length tb = nat (xout v * yout v)"
    and cells: "\<forall>r c. 0 \<le> r \<and> r < yout v \<and> 0 \<le> c \<and> c < xout v \<longrightarrow>
               tb ! nat (c * yout v + r) = ?f (nat (r * xout v + c))"
    by blast
  have n: "nat (xout v * yout v) = nat (yout v) * nat (xout v)"
    using x0 y0 by (simp add: nat_mult_distrib mult.commute)
  have m1: "int_mul 8 (xout v) = ret (8 * xout v)" using r1 by (simp add: int_mul_def)
  have m2: "int_mul (8 * xout v) (yout v) = ret (8 * xout v * yout v)" using r2 by (simp add: int_mul_def)
  have d: "8 * xout v * yout v div 8 = xout v * yout v" by simp
  have cp: "copy_elements (replicate (nat (yout v) * nat (xout v)) (Finite 0)) tb (xout v * yout v) = ret tb"
    using len n x0 y0 by (simp add: copy_elements_def)
  have res: "snd (fetch hBand gdal_type v) = Inr (MxDouble (nat (yout v)) (nat (xout v)) tb)"
    by (simp add: fetch_def raster_switch_wide [OF w] sw snd_seq m1 m2 d cp del: mult.assoc)
  have c2: "\<forall>row < nat (yout v). \<forall>col < nat (xout v).
               tb ! (col * nat (yout v) + row) = ?f (row * nat (xout v) + col)"
  proof (intro allI impI)
    fix row col assume r: "row < nat (yout v)" and c: "col < nat (xout v)"
    have "tb ! nat (int col * yout v + int row) = ?f (nat (int row * xout v + int col))"
      using cells r c by (intro cells [rule_format]) auto
    then show "tb ! (col * nat (yout v) + row) = ?f (row * nat (xout v) + col)"
      using nat_cell [OF x0 y0] by simp
  qed
  show ?thesis using res len n c2 by auto
qed

lemma cell_lt: "row < (yo::nat) \<Longrightarrow> col < xo \<Longrightarrow> col * yo + row < yo * xo"
proof -
  assume r: "row < yo" and c: "col < xo"
  have "col * yo + row < col * yo + yo" using r by simp
  also have "\<dots> = (col + 1) * yo" by simp
  also have "\<dots> \<le> xo * yo" using c by (intro mult_le_mono1) simp
  finally show ?thesis by (simp add: mult.commute)
qed

lemma fetch_returns:
  assumes "gdal_type \<in> {GDT_Byte, GDT_UInt16, GDT_Int16, GDT_UInt32, GDT_Int32, GDT_Float32, GDT_Float64}"
    and "0 \<le> xout v" "0 \<le> yout v" "int_range (8 * xout v)" "int_range (8 * xout v * yout v)"
  shows "\<exists>l a. fetch hBand gdal_type v = (l, Inr a)"
proof (cases "gdal_type = GDT_Byte")
  case True
  have "0 \<le> xout v * yout v" using assms by simp
  then have "int_range (xout v * yout v)" "int_range (xout v)"
    using assms by (auto simp: int_range_def INT_MIN_def INT_MAX_def)
  from fetch_Byte_correct [OF assms(2,3) this, of hBand] True
  show ?thesis by (metis prod.collapse)
next
  case False
  with assms(1) have w: "gdal_type \<in> {GDT_UInt16, GDT_Int16, GDT_UInt32, GDT_Int32, GDT_Float32, GDT_Float64}"
    by auto
  from fetch_wide_correct [OF w assms(2-5), of hBand]
  show ?thesis by (metis prod.collapse)
qed

lemma snd_verbose_report [simp]:
  "snd (verbose_report lib hBand gdal_type v X Y) = Inr ()"
  by (simp add: verbose_report_def snd_seq mexPrintf_def calls_def split: prod.splits)

lemma seq_Inl [simp]: "seq (l, Inl e) f = (l, Inl e)"
  by (simp add: seq_def)

lemma snd_calls [simp]: "snd (calls c) = Inr ()"
  by (simp add: calls_def)

lemma snd_deref: "snd (deref h) = (case h of None \<Rightarrow> Inl Undefined_behaviour | Some x \<Rightarrow> Inr x)"
  by (simp add: deref_def split: option.splits)

lemma snd_if_then_verbose_report [simp]:
  "snd (if_then c (verbose_report lib hBand gdal_type v X Y)) = Inr ()"
  by (simp add: if_then_def)

lemma snd_read_raster_null:
  assumes "GDALOpen lib f = Some hDataset" "selected_band hDataset v0 = None"
  shows "snd (read_raster lib f v0) = Inl Undefined_behaviour"
  using assms
  by (auto simp: read_raster_def snd_seq snd_deref selected_band_def
      split: option.splits if_splits)

lemma snd_read_raster:
  assumes "GDALOpen lib f = Some hDataset" "selected_band hDataset v0 = Some hBand"
  shows "snd (read_raster lib f v0) =
     (case snd (window_planner v0 (GDALGetRasterXSize_hBand hBand) (GDALGetRasterYSize_hBand hBand)) of
        Inl e \<Rightarrow> Inl e
      | Inr v \<Rightarrow> snd (fetch hBand (GDALGetRasterDataType hBand) v))"
  using assms
  by (auto simp: read_raster_def snd_seq snd_deref selected_band_def Let_def
      split: option.splits sum.splits if_splits)

text \<open>The definitions that evaluate a metadata dump on the example sources.\<close>

lemmas eval_defs = populate_metadata_struct_def example_gdal_def a_tif_def c_tif_def byte_band_def
  int16_band_def int16_overview_def complex_band_def gtiff_def png_def
  identity_transform_def world_file_transform_def
  GDALGetDriverCount_def GDALGetDriver_def GDALGetRasterCount_def GDALGetRasterBand_def
  GDALGetOverviewCount_def GDALGetOverview_def
  driver_loop.simps band_loop.simps overview_loop.simps handle_overviews_def
  record_geotransform_def sprintf_error_msg_def sprintf_fits_def
  mxCreateStructMatrix_def mxCreateString_def mxCreateDoubleScalar_def double_of_int_def
  calls_def seq_def ret_def raise_def deref_def mexWarnMsgTxt_def mexErrMsgTxt_def Let_def

subsection \<open>The option resolver\<close>








lemma int_of_double_Inr: "int_of_double d = (l, Inr r) \<Longrightarrow> l = []"
  by (auto simp: int_of_double_def Let_def split: double.splits if_splits)


lemma unpack_loop_done:
  "nfields \<le> ifield \<Longrightarrow> unpack_loop mx_struct nfields ifield v = ret v"
  by (subst unpack_loop.simps) simp

lemma seq_ret_right [simp]: "seq m ret = m"
  by (cases m) (auto simp: seq_def ret_def split: sum.splits)

lemma unpack_single_field:
  "unpack_input_options (MxStruct m n [fieldname] [[Some mxField]]) v = unpack_field fieldname mxField v"
proof -
  have e: "unpack_loop (MxStruct m n [fieldname] [[Some mxField]]) (Suc 0) (Suc 0) = ret"
    by (rule ext) (simp add: unpack_loop_done)
  have "unpack_loop (MxStruct m n [fieldname] [[Some mxField]]) (Suc 0) 0 v =
        seq (unpack_field fieldname mxField v) (\<lambda>v'. ret v')"
    by (subst unpack_loop.simps) (simp add: e)
  then show ?thesis by (simp add: unpack_input_options_def)
qed

subsection \<open>What each function logs\<close>

lemma list_all_seq:
  assumes "list_all P (fst m)" and "\<And>x. list_all P (fst (f x))"
  shows "list_all P (fst (seq m f))"
  using assms by (simp add: fst_seq split: sum.splits)

lemma fst_deref [simp]: "fst (deref h) = []"
  by (simp add: deref_def split: option.splits)

lemma fst_seq_nil: "fst m = [] \<Longrightarrow> (\<And>x. fst (f x) = []) \<Longrightarrow> fst (seq m f) = []"
  by (simp add: fst_seq split: sum.splits)

lemma fst_overview_loop [simp]: "fst (overview_loop hBand num_overviews overview s) = []"
proof (induction hBand num_overviews overview s rule: overview_loop.induct)
  case (1 hBand num_overviews overview s)
  show ?case
  proof (cases "overview < num_overviews")
    case True
    then show ?thesis
      by (subst overview_loop.simps) (auto intro!: fst_seq_nil simp: Let_def 1)
  next
    case False
    then show ?thesis by (subst overview_loop.simps) simp
  qed
qed

lemma fst_handle_overviews [simp]: "fst (handle_overviews hBand band_struct) = []"
  by (auto simp: handle_overviews_def Let_def intro!: fst_seq_nil)

lemma fst_driver_loop [simp]: "fst (driver_loop lib driverCount j s) = []"
proof (induction lib driverCount j s rule: driver_loop.induct)
  case (1 lib driverCount j s)
  show ?case
  proof (cases "j < driverCount")
    case True
    then show ?thesis
      by (subst driver_loop.simps) (auto intro!: fst_seq_nil simp: Let_def 1)
  next
    case False
    then show ?thesis by (subst driver_loop.simps) simp
  qed
qed

lemma fst_band_loop [simp]: "fst (band_loop lib hDataset raster_count band_number s) = []"
proof (induction lib hDataset raster_count band_number s rule: band_loop.induct)
  case (1 lib hDataset raster_count band_number s)
  show ?case
  proof (cases "band_number \<le> raster_count")
    case True
    then show ?thesis
      by (subst band_loop.simps) (auto intro!: fst_seq_nil simp: Let_def 1)
  next
    case False
    then show ?thesis by (subst band_loop.simps) simp
  qed
qed

lemma fst_transpose_inner [simp]: "fst (transpose_inner vb xo yo i j tb) = []"
proof (induction vb xo yo i j tb rule: transpose_inner.induct)
  case (1 vb xo yo i j tb)
  show ?case
    by (subst transpose_inner.simps) (auto simp: Let_def 1)
qed

lemma fst_transpose_outer [simp]: "fst (transpose_outer vb xo yo i tb) = []"
proof (induction vb xo yo i tb rule: transpose_outer.induct)
  case (1 vb xo yo i tb)
  show ?case
    by (subst transpose_outer.simps) (auto intro!: fst_seq_nil simp: 1)
qed

lemma fst_int_sub [simp]: "fst (int_sub a b) = []" by (simp add: int_sub_def)
lemma fst_int_mul [simp]: "fst (int_mul a b) = []" by (simp add: int_mul_def)
lemma fst_mxCalloc [simp]: "fst (mxCalloc n z) = []" by (simp add: mxCalloc_def)
lemma fst_mexErrMsgTxt [simp]: "fst (mexErrMsgTxt fmt args) = []" by (simp add: mexErrMsgTxt_def)
lemma fst_int_of_double [simp]: "fst (int_of_double d) = []"
  by (simp add: int_of_double_def Let_def split: double.splits)
lemma fst_first_as_int [simp]: "fst (first_as_int a) = []"
  by (cases a rule: first_as_int.cases) simp_all

lemma fst_window_planner [simp]: "fst (window_planner v X Y) = []"
  by (auto simp: window_planner_def Let_def intro!: fst_seq_nil)

lemma no_read_record_geotransform:
  "list_all (\<lambda>e. \<not> is_raster_read e) (fst (record_geotransform lib f hDataset))"
proof -
  obtain err adf1 where g: "GDALGetGeoTransform hDataset = (err, adf1)"
    by (cases "GDALGetGeoTransform hDataset")
  obtain r2 adf2 where w2: "GDALReadWorldFile lib f (Some ''wld'') adf1 = (r2, adf2)"
    by (cases "GDALReadWorldFile lib f (Some ''wld'') adf1")
  obtain r3 adf3 where w3: "GDALReadWorldFile lib (f @ ''.xxx'') (Some ''wld'') adf2 = (r3, adf3)"
    by (cases "GDALReadWorldFile lib (f @ ''.xxx'') (Some ''wld'') adf2")
  obtain r4 adf4 where w4: "GDALReadWorldFile lib f None adf3 = (r4, adf4)"
    by (cases "GDALReadWorldFile lib f None adf3")
  show ?thesis
    by (simp add: record_geotransform_def g w2 w3 w4 calls_def seq_def ret_def raise_def Let_def)
qed

lemma no_read_populate:
  "list_all (\<lambda>e. \<not> is_raster_read e) (fst (populate_metadata_struct lib f))"
  unfolding populate_metadata_struct_def Let_def
  by (auto simp: calls_def sprintf_error_msg_def mexWarnMsgTxt_def no_read_record_geotransform
      intro!: list_all_seq split: option.splits prod.splits)


lemma fst_copy_elements [simp]: "fst (copy_elements dst src k) = []"
  by (simp add: copy_elements_def)

lemma fst_memcpy [simp]: "fst (memcpy a b n) = []"
  by (cases "(a, b, n)" rule: memcpy.cases) (auto intro!: fst_seq_nil)

lemma no_geo_verbose_report:
  "list_all (\<lambda>e. \<not> is_georeference_query e) (fst (verbose_report lib hBand t v X Y))"
  by (auto simp: verbose_report_def mexPrintf_def calls_def intro!: list_all_seq split: prod.splits)

lemma no_geo_raster_switch:
  "list_all (\<lambda>e. \<not> is_georeference_query e) (fst (raster_switch hBand t v))"
  by (cases t)
     (auto simp: case_GDT_Byte_def case_GDT_Float64_def Let_def calls_def
        mxCreateNumericArray_UINT8_def mxCreateNumericArray_DOUBLE_def
        intro!: list_all_seq)

lemma no_geo_fetch:
  "list_all (\<lambda>e. \<not> is_georeference_query e) (fst (fetch hBand t v))"
  by (auto simp: fetch_def if_then_def mexPrintf_def no_geo_raster_switch
      intro!: list_all_seq split: prod.splits)

lemma no_geo_read_raster:
  "list_all (\<lambda>e. \<not> is_georeference_query e) (fst (read_raster lib f v))"
  unfolding read_raster_def Let_def
  by (auto simp: calls_def sprintf_error_msg_def if_then_def mexPrintf_def
      no_geo_fetch no_geo_verbose_report
      intro!: list_all_seq split: option.splits prod.splits)

lemma warn_unpack_value:
  "list_all is_Warn (fst (unpack_band f))" "list_all is_Warn (fst (unpack_overview f))"
  "list_all is_Warn (fst (unpack_gdal_dump f))" "list_all is_Warn (fst (unpack_verbose f))"
  "list_all is_Warn (fst (unpack_xextend f))" "list_all is_Warn (fst (unpack_yextend f))"
  "list_all is_Warn (fst (unpack_xout f))" "list_all is_Warn (fst (unpack_yout f))"
  by (auto simp: unpack_band_def unpack_overview_def unpack_gdal_dump_def unpack_verbose_def
      unpack_xextend_def unpack_yextend_def unpack_xout_def unpack_yout_def
      Let_def if_then_def mexWarnMsgTxt_def intro!: list_all_seq)

lemma warn_unpack_field: "list_all is_Warn (fst (unpack_field fieldname mxField v))"
  unfolding unpack_field_def
  by (intro list_all_seq) (auto simp: warn_unpack_value intro!: list_all_seq)

lemma warn_unpack_loop: "list_all is_Warn (fst (unpack_loop mx_struct nfields ifield v))"
proof (induction mx_struct nfields ifield v rule: unpack_loop.induct)
  case (1 mx_struct nfields ifield v)
  show ?case
    using 1
    by (subst unpack_loop.simps)
       (auto simp: warn_unpack_field intro!: list_all_seq split: option.splits)
qed

lemma warn_read_arguments: "list_all is_Warn (fst (read_arguments nlhs prhs))"
  unfolding read_arguments_def Let_def
  by (auto simp: if_then_def unpack_input_options_def warn_unpack_loop
      intro!: list_all_seq split: prod.splits)

subsection \<open>The two paths of mexFunction\<close>

lemma mxIsStruct_mxSetField [simp]: "mxIsStruct (mxSetField s i fieldname x) = mxIsStruct s"
  by (cases s) (auto split: option.splits)

lemma mxIsStruct_mxCreateStructMatrix [simp]: "mxIsStruct (mxCreateStructMatrix m n names)"
  by (simp add: mxCreateStructMatrix_def)

lemma populate_gives_struct:
  assumes "populate_metadata_struct lib f = (l, Inr m)"
  shows "mxIsStruct m"
  using assms unfolding populate_metadata_struct_def Let_def
  by (auto simp: seq_Inr_iff mexErrMsgTxt_def calls_def split: option.splits prod.splits if_splits)

lemma fetch_supported:
  assumes run: "fetch hBand gdal_type v = (l, Inr a)"
  shows "gdal_type \<in> {GDT_Byte, GDT_UInt16, GDT_Int16, GDT_UInt32, GDT_Int32, GDT_Float32, GDT_Float64}"
proof (rule ccontr)
  assume "gdal_type \<notin> {GDT_Byte, GDT_UInt16, GDT_Int16, GDT_UInt32, GDT_Int32, GDT_Float32, GDT_Float64}"
  from raster_switch_unsupported [OF this, of hBand v] run show False
    by (simp add: fetch_def mexErrMsgTxt_def)
qed

lemma fetch_class:
  assumes run: "fetch hBand gdal_type v = (l, Inr a)"
  shows "mxGetClassID a = (if gdal_type = GDT_Byte then mxUINT8_CLASS else mxDOUBLE_CLASS)"
proof (cases "gdal_type = GDT_Byte")
  case True
  from fetch_Byte_pre [of hBand v l a] run True
  have p: "0 \<le> xout v" "0 \<le> yout v" "int_range (xout v * yout v)" "int_range (xout v)" by auto
  from fetch_Byte_correct [OF p, of hBand] run True show ?thesis by auto
next
  case False
  with fetch_supported [OF run]
  have w: "gdal_type \<in> {GDT_UInt16, GDT_Int16, GDT_UInt32, GDT_Int32, GDT_Float32, GDT_Float64}"
    by auto
  from fetch_wide_pre [OF run w]
  have p: "0 \<le> xout v" "0 \<le> yout v" "int_range (8 * xout v)" "int_range (8 * xout v * yout v)" by auto
  from fetch_wide_correct [OF w p, of hBand] run False show ?thesis by auto
qed

lemma fetch_gives_numeric:
  assumes "fetch hBand t v = (l, Inr a)"
  shows "\<not> mxIsStruct a"
  using fetch_class [OF assms] by (cases a) (auto split: if_splits)

lemma read_raster_gives_numeric:
  assumes "read_raster lib f v = (l, Inr a)"
  shows "\<not> mxIsStruct a"
  using assms unfolding read_raster_def Let_def
  by (auto simp: seq_Inr_iff mexErrMsgTxt_def calls_def dest: fetch_gives_numeric
      split: option.splits prod.splits if_splits)

lemma is_Warn_not_read: "is_Warn e \<Longrightarrow> \<not> is_raster_read e \<and> \<not> is_georeference_query e"
  by (cases e) auto

lemma mexFunction_dispatch:
  assumes "read_arguments nlhs prhs = (l1, Inr (gdal_filename, v))"
  shows "mexFunction lib nlhs prhs =
     (if gdal_dump v \<noteq> 0
      then (l1 @ Call Call_GDALAllRegister # fst (populate_metadata_struct lib gdal_filename),
            snd (populate_metadata_struct lib gdal_filename))
      else (l1 @ Call Call_GDALAllRegister # fst (read_raster lib gdal_filename v),
            snd (read_raster lib gdal_filename v)))"
  by (simp add: mexFunction_def assms seq_def calls_def split: prod.splits sum.splits)

lemma mexFunction_no_arguments:
  assumes "read_arguments nlhs prhs = (l1, Inl e)"
  shows "mexFunction lib nlhs prhs = (l1, Inl e)"
  by (simp add: mexFunction_def assms)

subsection \<open>Runs that differ in the verbose flag only\<close>

lemma same_up_to_verbose_seq:
  assumes "same_up_to_verbose (snd m1) (snd m2)"
    and "\<And>v w. agree_except_verbose v w \<Longrightarrow> same_up_to_verbose (snd (f v)) (snd (g w))"
  shows "same_up_to_verbose (snd (seq m1 f)) (snd (seq m2 g))"
  using assms
  by (cases "snd m1"; cases "snd m2") (auto simp: snd_seq)

lemma snd_unpack_value_assign:
  assumes "agree_except_verbose v w"
  shows "same_up_to_verbose (snd (seq m (\<lambda>r. ret (v\<lparr>requested_band := r\<rparr>))))
                            (snd (seq m (\<lambda>r. ret (w\<lparr>requested_band := r\<rparr>))))"
    and "same_up_to_verbose (snd (seq m (\<lambda>r. ret (v\<lparr>requested_overview := r\<rparr>))))
                            (snd (seq m (\<lambda>r. ret (w\<lparr>requested_overview := r\<rparr>))))"
    and "same_up_to_verbose (snd (seq m (\<lambda>r. ret (v\<lparr>gdal_dump := r\<rparr>))))
                            (snd (seq m (\<lambda>r. ret (w\<lparr>gdal_dump := r\<rparr>))))"
    and "same_up_to_verbose (snd (seq m (\<lambda>r. ret (v\<lparr>xorigin := r\<rparr>))))
                            (snd (seq m (\<lambda>r. ret (w\<lparr>xorigin := r\<rparr>))))"
    and "same_up_to_verbose (snd (seq m (\<lambda>r. ret (v\<lparr>yorigin := r\<rparr>))))
                            (snd (seq m (\<lambda>r. ret (w\<lparr>yorigin := r\<rparr>))))"
    and "same_up_to_verbose (snd (seq m (\<lambda>r. ret (v\<lparr>xextend := r\<rparr>))))
                            (snd (seq m (\<lambda>r. ret (w\<lparr>xextend := r\<rparr>))))"
    and "same_up_to_verbose (snd (seq m (\<lambda>r. ret (v\<lparr>yextend := r\<rparr>))))
                            (snd (seq m (\<lambda>r. ret (w\<lparr>yextend := r\<rparr>))))"
    and "same_up_to_verbose (snd (seq m (\<lambda>r. ret (v\<lparr>xout := r\<rparr>))))
                            (snd (seq m (\<lambda>r. ret (w\<lparr>xout := r\<rparr>))))"
    and "same_up_to_verbose (snd (seq m (\<lambda>r. ret (v\<lparr>yout := r\<rparr>))))
                            (snd (seq m (\<lambda>r. ret (w\<lparr>yout := r\<rparr>))))"
  using assms by (auto simp: snd_seq agree_except_verbose_def split: sum.splits)

lemma same_ret: "agree_except_verbose v w \<Longrightarrow> same_up_to_verbose (snd (ret v)) (snd (ret w))"
  by simp

lemma unpack_field_other:
  assumes ne: "fieldname \<noteq> ''verbose''" and ag: "agree_except_verbose v w"
  shows "same_up_to_verbose (snd (unpack_field fieldname f v)) (snd (unpack_field fieldname f w))"
  unfolding unpack_field_def
  apply (rule same_up_to_verbose_seq)
   apply (simp add: snd_unpack_value_assign ag)
  apply (rule same_up_to_verbose_seq)
   apply (simp add: snd_unpack_value_assign)
  apply (rule same_up_to_verbose_seq)
   apply (simp add: snd_unpack_value_assign)
  apply (rule same_up_to_verbose_seq)
   apply (simp add: ne)
  apply (rule same_up_to_verbose_seq)
   apply (simp add: snd_unpack_value_assign)
  apply (rule same_up_to_verbose_seq)
   apply (simp add: snd_unpack_value_assign)
  apply (rule same_up_to_verbose_seq)
   apply (simp add: snd_unpack_value_assign)
  apply (rule same_up_to_verbose_seq)
   apply (simp add: snd_unpack_value_assign)
  apply (rule same_up_to_verbose_seq)
   apply (simp add: snd_unpack_value_assign)
  apply (simp add: snd_unpack_value_assign)
  done


lemma valid_flag_SomeD:
  assumes "valid_flag (Some f)"
  shows "\<exists>r. snd (unpack_verbose f) = Inr r"
proof -
  from assms obtain m n d ds where f: "f = MxDouble m n (d # ds)" and ok: "\<not> isl (snd (int_of_double d))"
    by (cases "Some f" rule: valid_flag.cases) auto
  from ok obtain r where "snd (int_of_double d) = Inr r"
    by (cases "snd (int_of_double d)") auto
  then show ?thesis
    by (simp add: f unpack_verbose_def Let_def snd_seq if_then_def mexWarnMsgTxt_def ret_def)
qed

lemma unpack_field_verbose:
  assumes "valid_flag (Some f)" "valid_flag (Some g)" and ag: "agree_except_verbose v w"
  shows "same_up_to_verbose (snd (unpack_field ''verbose'' f v)) (snd (unpack_field ''verbose'' g w))"
proof -
  from valid_flag_SomeD [OF assms(1)] obtain r where r: "snd (unpack_verbose f) = Inr r" by blast
  from valid_flag_SomeD [OF assms(2)] obtain r' where r': "snd (unpack_verbose g) = Inr r'" by blast
  show ?thesis
    using ag by (simp add: unpack_field_def snd_seq r r' agree_except_verbose_def)
qed

lemma unpack_loop_variant:
  assumes n: "mxGetNumberOfFields a = nfields"
    and names: "\<And>i. i < nfields \<Longrightarrow> mxGetFieldNameByNumber a i = mxGetFieldNameByNumber b i"
    and flags: "\<And>i. i < nfields \<Longrightarrow> mxGetFieldNameByNumber a i = Some ''verbose'' \<Longrightarrow>
                  valid_flag (mxGetFieldByNumber a 0 i) \<and> valid_flag (mxGetFieldByNumber b 0 i)"
    and others: "\<And>i. i < nfields \<Longrightarrow> mxGetFieldNameByNumber a i \<noteq> Some ''verbose'' \<Longrightarrow>
                  mxGetFieldByNumber a 0 i = mxGetFieldByNumber b 0 i"
    and ag: "agree_except_verbose v w"
  shows "same_up_to_verbose (snd (unpack_loop a nfields ifield v)) (snd (unpack_loop b nfields ifield w))"
  using ag
proof (induction "nfields - ifield" arbitrary: ifield v w)
  case 0
  then have "nfields \<le> ifield" by simp
  then show ?case using 0 by (simp add: unpack_loop_done)
next
  case (Suc k)
  then have lt: "ifield < nfields" by simp
  have step: "same_up_to_verbose (snd (unpack_loop a nfields (Suc ifield) v'))
                 (snd (unpack_loop b nfields (Suc ifield) w'))"
    if "agree_except_verbose v' w'" for v' w'
    using Suc(1) [of "Suc ifield" v' w'] Suc(2) that by simp
  show ?case
  proof (cases "mxGetFieldNameByNumber a ifield = Some ''verbose''")
    case True
    from flags [OF lt True] obtain f g where
      f: "mxGetFieldByNumber a 0 ifield = Some f" "valid_flag (Some f)"
      and g: "mxGetFieldByNumber b 0 ifield = Some g" "valid_flag (Some g)"
      by (cases "mxGetFieldByNumber a 0 ifield"; cases "mxGetFieldByNumber b 0 ifield") auto
    from names [OF lt] True have nb: "mxGetFieldNameByNumber b ifield = Some ''verbose''" by simp
    have "same_up_to_verbose
            (snd (seq (unpack_field ''verbose'' f v) (\<lambda>v'. unpack_loop a nfields (ifield + 1) v')))
            (snd (seq (unpack_field ''verbose'' g w) (\<lambda>w'. unpack_loop b nfields (ifield + 1) w')))"
      by (rule same_up_to_verbose_seq) (auto intro: unpack_field_verbose [OF f(2) g(2) Suc(3)] step)
    then show ?thesis
      using lt f g True nb
      by (simp add: unpack_loop.simps [of a nfields ifield v] unpack_loop.simps [of b nfields ifield w])
  next
    case False
    from others [OF lt False] have same: "mxGetFieldByNumber a 0 ifield = mxGetFieldByNumber b 0 ifield" .
    from names [OF lt] have nm: "mxGetFieldNameByNumber a ifield = mxGetFieldNameByNumber b ifield" .
    show ?thesis
    proof (cases "mxGetFieldByNumber b 0 ifield")
      case None
      then show ?thesis using lt same
        by (simp add: unpack_loop.simps [of a nfields ifield v] unpack_loop.simps [of b nfields ifield w] mexErrMsgTxt_def)
    next
      case (Some f)
      show ?thesis
      proof (cases "mxGetFieldNameByNumber b ifield")
        case None
        then show ?thesis using lt same nm Some
          by (simp add: unpack_loop.simps [of a nfields ifield v] unpack_loop.simps [of b nfields ifield w] mexErrMsgTxt_def)
      next
        case name: (Some fieldname)
        with False nm have ne: "fieldname \<noteq> ''verbose''" by simp
        have "same_up_to_verbose
            (snd (seq (unpack_field fieldname f v) (\<lambda>v'. unpack_loop a nfields (ifield + 1) v')))
            (snd (seq (unpack_field fieldname f w) (\<lambda>w'. unpack_loop b nfields (ifield + 1) w')))"
          by (rule same_up_to_verbose_seq) (auto intro: unpack_field_other [OF ne Suc(3)] step)
        then show ?thesis
          using lt same nm Some name
          by (simp add: unpack_loop.simps [of a nfields ifield v] unpack_loop.simps [of b nfields ifield w])
      qed
    qed
  qed
qed


lemma unpack_input_options_variant:
  assumes vv: "verbose_variant a b" and ag: "agree_except_verbose v w"
  shows "same_up_to_verbose (snd (unpack_input_options a v)) (snd (unpack_input_options b w))"
proof -
  let ?n = "mxGetNumberOfFields a"
  from vv have nb: "mxGetNumberOfFields b = ?n"
    and all: "\<And>i. i < ?n \<Longrightarrow>
         mxGetFieldNameByNumber a i = mxGetFieldNameByNumber b i \<and>
         (if mxGetFieldNameByNumber a i = Some ''verbose''
          then valid_flag (mxGetFieldByNumber a 0 i) \<and> valid_flag (mxGetFieldByNumber b 0 i)
          else mxGetFieldByNumber a 0 i = mxGetFieldByNumber b 0 i)"
    by (auto simp: verbose_variant_def list_all_iff)
  have "same_up_to_verbose (snd (unpack_loop a ?n 0 v)) (snd (unpack_loop b ?n 0 w))"
  proof (rule unpack_loop_variant [OF refl _ _ _ ag])
    fix i assume "i < ?n"
    from all [OF this] show "mxGetFieldNameByNumber a i = mxGetFieldNameByNumber b i" by simp
  next
    fix i assume "i < ?n" and "mxGetFieldNameByNumber a i = Some ''verbose''"
    with all [of i] show "valid_flag (mxGetFieldByNumber a 0 i) \<and> valid_flag (mxGetFieldByNumber b 0 i)"
      by simp
  next
    fix i assume "i < ?n" and "mxGetFieldNameByNumber a i \<noteq> Some ''verbose''"
    with all [of i] show "mxGetFieldByNumber a 0 i = mxGetFieldByNumber b 0 i" by simp
  qed
  then show ?thesis by (simp add: unpack_input_options_def nb)
qed

lemma agree_initial: "agree_except_verbose initial_request initial_request"
  by (simp add: agree_except_verbose_def)

lemma read_arguments_variant:
  assumes vv: "verbose_variant a b"
  shows "(case snd (read_arguments nlhs [file, a]) of
            Inl e \<Rightarrow> snd (read_arguments nlhs [file, b]) = Inl e
          | Inr (f, v) \<Rightarrow> (\<exists>w. snd (read_arguments nlhs [file, b]) = Inr (f, w) \<and> agree_except_verbose v w))"
proof -
  from vv have st: "mxIsStruct a" "mxIsStruct b" by (simp_all add: verbose_variant_def)
  note u = unpack_input_options_variant [OF vv agree_initial]
  show ?thesis
    using u st
    by (cases "snd (unpack_input_options a initial_request)";
        cases "snd (unpack_input_options b initial_request)")
       (auto simp: read_arguments_def Let_def snd_seq if_then_def mexErrMsgTxt_def
          split: prod.splits sum.splits)
qed

lemma window_planner_agree:
  assumes "agree_except_verbose v w"
  shows "same_up_to_verbose (snd (window_planner v X Y)) (snd (window_planner w X Y))"
  using assms
  by (auto simp: window_planner_def Let_def snd_seq int_sub_def agree_except_verbose_def)

lemma case_GDT_Byte_agree:
  "agree_except_verbose v w \<Longrightarrow> case_GDT_Byte hBand v = case_GDT_Byte hBand w"
  by (simp add: case_GDT_Byte_def agree_except_verbose_def)

lemma case_GDT_Float64_agree:
  "agree_except_verbose v w \<Longrightarrow> case_GDT_Float64 hBand v = case_GDT_Float64 hBand w"
  by (simp add: case_GDT_Float64_def agree_except_verbose_def)

lemma raster_switch_agree:
  "agree_except_verbose v w \<Longrightarrow> raster_switch hBand t v = raster_switch hBand t w"
  by (cases t) (simp_all add: case_GDT_Byte_agree case_GDT_Float64_agree)

lemma fetch_agree:
  assumes "agree_except_verbose v w"
  shows "snd (fetch hBand t v) = snd (fetch hBand t w)"
proof -
  from assms have x: "xout v = xout w" "yout v = yout w" by (simp_all add: agree_except_verbose_def)
  show ?thesis
    by (simp add: fetch_def snd_seq raster_switch_agree [OF assms] x split: sum.splits prod.splits)
qed

lemma read_raster_agree:
  assumes ag: "agree_except_verbose v w"
  shows "snd (read_raster lib f v) = snd (read_raster lib f w)"
proof (cases "GDALOpen lib f")
  case None
  then show ?thesis by (simp add: read_raster_def snd_seq)
next
  case (Some hDataset)
  from ag have sel: "selected_band hDataset v = selected_band hDataset w"
    by (auto simp: selected_band_def agree_except_verbose_def split: option.splits)
  show ?thesis
  proof (cases "selected_band hDataset w")
    case None
    with sel Some snd_read_raster_null [of lib f hDataset v] snd_read_raster_null [of lib f hDataset w]
    show ?thesis by simp
  next
    case (Some hBand)
    note b = this
    from snd_read_raster [OF \<open>GDALOpen lib f = Some hDataset\<close>, of v hBand] sel b
    have r1: "snd (read_raster lib f v) =
       (case snd (window_planner v (GDALGetRasterXSize_hBand hBand) (GDALGetRasterYSize_hBand hBand)) of
          Inl e \<Rightarrow> Inl e | Inr v' \<Rightarrow> snd (fetch hBand (GDALGetRasterDataType hBand) v'))"
      by simp
    from snd_read_raster [OF \<open>GDALOpen lib f = Some hDataset\<close>, of w hBand] b
    have r2: "snd (read_raster lib f w) =
       (case snd (window_planner w (GDALGetRasterXSize_hBand hBand) (GDALGetRasterYSize_hBand hBand)) of
          Inl e \<Rightarrow> Inl e | Inr v' \<Rightarrow> snd (fetch hBand (GDALGetRasterDataType hBand) v'))"
      by simp
    from window_planner_agree [OF ag, of "GDALGetRasterXSize_hBand hBand" "GDALGetRasterYSize_hBand hBand"]
    show ?thesis
      unfolding r1 r2
      by (cases "snd (window_planner v (GDALGetRasterXSize_hBand hBand) (GDALGetRasterYSize_hBand hBand))";
          cases "snd (window_planner w (GDALGetRasterXSize_hBand hBand) (GDALGetRasterYSize_hBand hBand))")
         (auto intro: fetch_agree)
  qed
qed

subsection \<open>Bands without overviews\<close>

lemma handle_overviews_none:
  "GDALGetOverviewCount hBand = 0 \<Longrightarrow> handle_overviews hBand band_struct = ([], Inr band_struct)"
  by (simp add: handle_overviews_def ret_def)

lemma mxGetFieldNumber_SomeD:
  "mxGetFieldNumber names fieldname = Some k \<Longrightarrow> k < length names \<and> names ! k = fieldname"
  by (induction names arbitrary: k) (auto split: if_splits)

lemma mxGetField_mxSetField_other:
  assumes "fieldname \<noteq> fieldname'"
  shows "mxGetField (mxSetField s i fieldname v) i' fieldname' = mxGetField s i' fieldname'"
proof (cases s)
  case (MxStruct m n names els)
  show ?thesis
  proof (cases "mxGetFieldNumber names fieldname")
    case None
    with MxStruct show ?thesis by simp
  next
    case (Some k)
    show ?thesis
    proof (cases "mxGetFieldNumber names fieldname'")
      case None
      with MxStruct Some show ?thesis by simp
    next
      case (Some k')
      with \<open>mxGetFieldNumber names fieldname = Some k\<close> assms
        mxGetFieldNumber_SomeD [of names fieldname k] mxGetFieldNumber_SomeD [of names fieldname' k']
      have "k \<noteq> k'" by auto
      with MxStruct Some \<open>mxGetFieldNumber names fieldname = Some k\<close> show ?thesis
        by (cases "i = i'") (auto simp: nth_list_update)
    qed
  qed
qed simp_all

lemma mxGetField_mxCreateStructMatrix:
  "mxGetField (mxCreateStructMatrix m n names) i fieldname = None"
  by (auto simp: mxCreateStructMatrix_def split: option.splits dest: mxGetFieldNumber_SomeD)

text \<open>When no band of the source has overviews, the band loop returns and leaves the
  field \<^verbatim>\<open>Overview\<close> of every entry unset: every entry shows no overviews.\<close>

lemma band_loop_keeps_Overview_unset:
  assumes "\<forall>hBand \<in> set (raster_bands hDataset). GDALGetOverviewCount hBand = 0"
    and "raster_count = GDALGetRasterCount hDataset" "1 \<le> band_number"
    and "\<forall>i. mxGetField s i ''Overview'' = None"
  shows "\<exists>s'. band_loop lib hDataset raster_count band_number s = ([], Inr s')
     \<and> (\<forall>i. mxGetField s' i ''Overview'' = None)"
  using assms(2-)
proof (induction "nat (raster_count + 1 - band_number)" arbitrary: band_number s)
  case 0
  then show ?case by (subst band_loop.simps) (simp add: ret_def)
next
  case (Suc k)
  then have le: "band_number \<le> raster_count" by simp
  define hBand where "hBand = raster_bands hDataset ! nat (band_number - 1)"
  define s4 where "s4 = mxSetField (mxSetField (mxSetField (mxSetField s 0 ''XSize''
                   (mxCreateDoubleScalar (double_of_int (GDALGetRasterBandXSize hBand))))
                   0 ''YSize'' (mxCreateDoubleScalar (double_of_int (GDALGetRasterBandYSize hBand))))
                   0 ''DataType'' (mxCreateString (GDALGetDataTypeName lib (GDALGetRasterDataType hBand))))
                   0 ''NoDataValue'' (mxCreateDoubleScalar (GDALGetRasterNoDataValue hBand))"
  from le Suc.prems have d: "GDALGetRasterBand hDataset band_number = Some hBand"
    by (simp add: GDALGetRasterBand_def hBand_def)
  from le Suc.prems have "hBand \<in> set (raster_bands hDataset)"
    by (simp add: hBand_def GDALGetRasterCount_def)
  with assms(1) have h: "handle_overviews hBand s4 = ([], Inr s4)"
    by (simp add: handle_overviews_none)
  have u: "\<forall>i. mxGetField s4 i ''Overview'' = None"
    using Suc.prems(3) by (simp add: s4_def mxGetField_mxSetField_other)
  from Suc.hyps(2) have "k = nat (raster_count + 1 - (band_number + 1))" by simp
  from Suc.hyps(1) [OF this Suc.prems(1) _ u] Suc.prems(2)
  have "\<exists>s'. band_loop lib hDataset raster_count (band_number + 1) s4 = ([], Inr s')
     \<and> (\<forall>i. mxGetField s' i ''Overview'' = None)"
    by simp
  then show ?case using le d h
    by (subst band_loop.simps) (auto simp: Let_def s4_def [symmetric] seq_def ret_def deref_def)
qed

lemma band_loop_without_overviews:
  assumes "\<forall>hBand \<in> set (raster_bands hDataset). GDALGetOverviewCount hBand = 0"
  shows "\<exists>band_struct.
     band_loop lib hDataset (GDALGetRasterCount hDataset) 1
       (mxCreateStructMatrix (nat (GDALGetRasterCount hDataset)) 1
          [''XSize'', ''YSize'', ''Overview'', ''NoDataValue'', ''DataType'']) = ([], Inr band_struct)
     \<and> (\<forall>index. overviews_shown band_struct index = 0)"
proof -
  have "\<forall>i. mxGetField (mxCreateStructMatrix (nat (GDALGetRasterCount hDataset)) 1
          [''XSize'', ''YSize'', ''Overview'', ''NoDataValue'', ''DataType'']) i ''Overview'' = None"
    by (simp only: mxGetField_mxCreateStructMatrix) simp
  from band_loop_keeps_Overview_unset [OF assms refl order_refl this, of lib]
  show ?thesis by (auto simp: overviews_shown_def)
qed


section \<open>The claims\<close>

subsection \<open>C3: the window planner\<close>

text \<open>
  C3. The window planner resolves the window as: xExtent is the supplied value if any,
  else the band width (yExtent likewise with the band height); then xOut is the supplied
  value if any, else xExtent - xOrigin (yOut likewise); the origins pass through
  unchanged, and their default is 0. The planner returns whenever the two differences
  are C ints. For a 500 by 600 source and no options, the resolved window is
  xOrigin 0, yOrigin 0, xExtent 500, yExtent 600, xOut 500, yOut 600.
\<close>

theorem window_planner_resolves:
  "(window_planner v RasterXSize RasterYSize = (l, Inr w) \<longrightarrow>
      xextend w = (case supplied (xextend v) of Some s \<Rightarrow> s | None \<Rightarrow> RasterXSize) \<and>
      yextend w = (case supplied (yextend v) of Some s \<Rightarrow> s | None \<Rightarrow> RasterYSize) \<and>
      xout w = (case supplied (xout v) of Some s \<Rightarrow> s | None \<Rightarrow> xextend w - xorigin v) \<and>
      yout w = (case supplied (yout v) of Some s \<Rightarrow> s | None \<Rightarrow> yextend w - yorigin v) \<and>
      xorigin w = xorigin v \<and> yorigin w = yorigin v) \<and>
   (int_range ((case supplied (xextend v) of Some s \<Rightarrow> s | None \<Rightarrow> RasterXSize) - xorigin v) \<and>
    int_range ((case supplied (yextend v) of Some s \<Rightarrow> s | None \<Rightarrow> RasterYSize) - yorigin v) \<longrightarrow>
      (\<exists>w'. window_planner v RasterXSize RasterYSize = ([], Inr w'))) \<and>
   xorigin initial_request = 0 \<and> yorigin initial_request = 0 \<and>
   window_planner initial_request 500 600 =
     ([], Inr \<lparr>requested_band = 1, requested_overview = - 1, gdal_dump = 0, mexgdal_verbose = 1,
               xorigin = 0, yorigin = 0, xextend = 500, yextend = 600, xout = 500, yout = 600\<rparr>)"
proof (intro conjI impI)
  assume run: "window_planner v RasterXSize RasterYSize = (l, Inr w)"
  then show "xextend w = (case supplied (xextend v) of Some s \<Rightarrow> s | None \<Rightarrow> RasterXSize)"
    and "yextend w = (case supplied (yextend v) of Some s \<Rightarrow> s | None \<Rightarrow> RasterYSize)"
    and "xorigin w = xorigin v" and "yorigin w = yorigin v"
    by (auto simp: window_planner_def supplied_def Let_def seq_Inr_iff int_sub_Inr split: if_splits)
  from run show "xout w = (case supplied (xout v) of Some s \<Rightarrow> s | None \<Rightarrow> xextend w - xorigin v)"
    by (auto simp: window_planner_def supplied_def Let_def seq_Inr_iff int_sub_Inr split: if_splits)
  from run show "yout w = (case supplied (yout v) of Some s \<Rightarrow> s | None \<Rightarrow> yextend w - yorigin v)"
    by (auto simp: window_planner_def supplied_def Let_def seq_Inr_iff int_sub_Inr split: if_splits)
next
  assume "int_range ((case supplied (xextend v) of Some s \<Rightarrow> s | None \<Rightarrow> RasterXSize) - xorigin v) \<and>
    int_range ((case supplied (yextend v) of Some s \<Rightarrow> s | None \<Rightarrow> RasterYSize) - yorigin v)"
  then show "\<exists>w'. window_planner v RasterXSize RasterYSize = ([], Inr w')"
    by (auto simp: window_planner_def supplied_def Let_def int_sub_def split: if_splits)
next
  show "xorigin initial_request = 0" and "yorigin initial_request = 0"
    by (simp_all add: initial_request_def)
  show "window_planner initial_request 500 600 =
     ([], Inr \<lparr>requested_band = 1, requested_overview = - 1, gdal_dump = 0, mexgdal_verbose = 1,
               xorigin = 0, yorigin = 0, xextend = 500, yextend = 600, xout = 500, yout = 600\<rparr>)"
    by (simp add: window_planner_def initial_request_def int_sub_def int_range_def
        INT_MIN_def INT_MAX_def)
qed

text \<open>Witness: the upper left quarter of a 500 by 600 band, asked for by its extents
  alone; the output sizes are the extents.\<close>

theorem window_planner_resolves_witness:
  "window_planner (initial_request\<lparr>xextend := 250, yextend := 300\<rparr>) 500 600 =
     ([], Inr (initial_request\<lparr>xextend := 250, yextend := 300, xout := 250, yout := 300\<rparr>))
   \<and> xout (initial_request\<lparr>xextend := 250, yextend := 300, xout := 250, yout := 300\<rparr>) =
       xextend (initial_request\<lparr>xextend := 250, yextend := 300, xout := 250, yout := 300\<rparr>)
         - xorigin (initial_request\<lparr>xextend := 250, yextend := 300\<rparr>)"
proof -
  have run: "window_planner (initial_request\<lparr>xextend := 250, yextend := 300\<rparr>) 500 600 =
     ([], Inr (initial_request\<lparr>xextend := 250, yextend := 300, xout := 250, yout := 300\<rparr>))"
    by (simp add: window_planner_def initial_request_def int_sub_def int_range_def
        INT_MIN_def INT_MAX_def)
  from window_planner_resolves [THEN conjunct1, rule_format, OF run] run
  show ?thesis
    by (simp add: supplied_def initial_request_def)
qed

subsection \<open>C1: the transposition and the reported dimensions\<close>

text \<open>
  C1. For every fetched window, the transpose step maps the row-major decode buffer into
  the column-major output buffer by output[col * yOut + row] = decoded[row * xOut + col]
  for every row in [0,yOut) and col in [0,xOut), and the array handed to the caller
  reports the dimensions (yOut, xOut). A window of a supported type is fetched whenever
  its sizes are not negative and the byte count of the wide representation,
  8 * xOut * yOut, is a C int.
\<close>

theorem fetch_transposes:
  "(fetch hBand gdal_type v = (l, Inr a) \<longrightarrow>
      mxGetM a = nat (yout v) \<and> mxGetN a = nat (xout v) \<and>
      mxGetNumberOfElements a = nat (yout v) * nat (xout v) \<and>
      (\<forall>row < nat (yout v). \<forall>col < nat (xout v).
         element a (col * nat (yout v) + row) =
         Some (decoded hBand gdal_type v (row * nat (xout v) + col)))) \<and>
   (gdal_type \<in> {GDT_Byte, GDT_UInt16, GDT_Int16, GDT_UInt32, GDT_Int32, GDT_Float32, GDT_Float64} \<and>
    0 \<le> xout v \<and> 0 \<le> yout v \<and> int_range (8 * xout v) \<and> int_range (8 * xout v * yout v) \<longrightarrow>
      (\<exists>l' a'. fetch hBand gdal_type v = (l', Inr a')))"
proof (intro conjI impI)
  assume run: "fetch hBand gdal_type v = (l, Inr a)"
  have sup: "gdal_type \<in> {GDT_Byte, GDT_UInt16, GDT_Int16, GDT_UInt32, GDT_Int32, GDT_Float32, GDT_Float64}"
  proof (rule ccontr)
    assume "gdal_type \<notin> {GDT_Byte, GDT_UInt16, GDT_Int16, GDT_UInt32, GDT_Int32, GDT_Float32, GDT_Float64}"
    from raster_switch_unsupported [OF this, of hBand v] run show False
      by (simp add: fetch_def mexErrMsgTxt_def)
  qed
  have main: "mxGetM a = nat (yout v) \<and> mxGetN a = nat (xout v) \<and>
      mxGetNumberOfElements a = nat (yout v) * nat (xout v) \<and>
      (\<forall>row < nat (yout v). \<forall>col < nat (xout v).
         element a (col * nat (yout v) + row) =
         Some (decoded hBand gdal_type v (row * nat (xout v) + col)))"
  proof (cases "gdal_type = GDT_Byte")
    case True
    from fetch_Byte_pre [of hBand v l a] run True
    have p: "0 \<le> xout v" "0 \<le> yout v" "int_range (xout v * yout v)" "int_range (xout v)" by auto
    from fetch_Byte_correct [OF p, of hBand] run True
    obtain tb where a: "a = MxUInt8 (nat (yout v)) (nat (xout v)) tb"
      and len: "length tb = nat (yout v) * nat (xout v)"
      and cells: "\<forall>row < nat (yout v). \<forall>col < nat (xout v).
               tb ! (col * nat (yout v) + row) =
               GDALRasterIO_Byte hBand (xorigin v) (yorigin v) (xextend v) (yextend v) (xout v) (yout v)
                 (row * nat (xout v) + col)"
      by auto
    show ?thesis using a len cells True by (auto simp: decoded_def cell_lt)
  next
    case False
    with sup have w: "gdal_type \<in> {GDT_UInt16, GDT_Int16, GDT_UInt32, GDT_Int32, GDT_Float32, GDT_Float64}"
      by auto
    from fetch_wide_pre [OF run w]
    have p: "0 \<le> xout v" "0 \<le> yout v" "int_range (8 * xout v)" "int_range (8 * xout v * yout v)" by auto
    from fetch_wide_correct [OF w p, of hBand] run
    obtain tb where a: "a = MxDouble (nat (yout v)) (nat (xout v)) tb"
      and len: "length tb = nat (yout v) * nat (xout v)"
      and cells: "\<forall>row < nat (yout v). \<forall>col < nat (xout v).
               tb ! (col * nat (yout v) + row) =
               GDALRasterIO_Float64 hBand (xorigin v) (yorigin v) (xextend v) (yextend v) (xout v) (yout v)
                 (row * nat (xout v) + col)"
      by auto
    show ?thesis using a len cells False by (auto simp: decoded_def cell_lt)
  qed
  from main show "mxGetM a = nat (yout v)" by simp
  from main show "mxGetN a = nat (xout v)" by simp
  from main show "mxGetNumberOfElements a = nat (yout v) * nat (xout v)" by simp
  from main show "\<forall>row < nat (yout v). \<forall>col < nat (xout v).
         element a (col * nat (yout v) + row) =
         Some (decoded hBand gdal_type v (row * nat (xout v) + col))" by simp
next
  assume "gdal_type \<in> {GDT_Byte, GDT_UInt16, GDT_Int16, GDT_UInt32, GDT_Int32, GDT_Float32, GDT_Float64} \<and>
    0 \<le> xout v \<and> 0 \<le> yout v \<and> int_range (8 * xout v) \<and> int_range (8 * xout v * yout v)"
  then show "\<exists>l' a'. fetch hBand gdal_type v = (l', Inr a')"
    using fetch_returns by blast
qed

text \<open>Witness: the 3 by 2 byte band; the decode buffer 10..15 comes out as
  10, 13, 11, 14, 12, 15, and the element of column 1, row 0 is the decoded element 1.\<close>

theorem fetch_transposes_witness:
  "fetch byte_band GDT_Byte quiet_3x2 =
     ([Call (Call_GDALRasterIO 0 0 3 2 3 2 GDT_Byte)], Inr (MxUInt8 2 3 [10, 13, 11, 14, 12, 15]))
   \<and> mxGetM (MxUInt8 2 3 [10, 13, 11, 14, 12, 15]) = nat (yout quiet_3x2)
   \<and> mxGetN (MxUInt8 2 3 [10, 13, 11, 14, 12, 15]) = nat (xout quiet_3x2)
   \<and> element (MxUInt8 2 3 [10, 13, 11, 14, 12, 15]) (1 * nat (yout quiet_3x2) + 0) =
       Some (decoded byte_band GDT_Byte quiet_3x2 (0 * nat (xout quiet_3x2) + 1))"
proof -
  have run: "fetch byte_band GDT_Byte quiet_3x2 =
     ([Call (Call_GDALRasterIO 0 0 3 2 3 2 GDT_Byte)], Inr (MxUInt8 2 3 [10, 13, 11, 14, 12, 15]))"
    by (simp add: fetch_def case_GDT_Byte_def quiet_3x2_def initial_request_def byte_band_def
        int_mul_def int_range_def INT_MIN_def INT_MAX_def mxCalloc_def calls_def seq_def
        transpose_outer.simps transpose_inner.simps in_bounds_def Let_def
        mxCreateNumericArray_UINT8_def copy_elements_def if_then_def ret_def upt_rec numeral_eq_Suc)
  note t = fetch_transposes [THEN conjunct1, THEN mp, OF run]
  have y: "(0::nat) < nat (yout quiet_3x2)" and x: "(1::nat) < nat (xout quiet_3x2)"
    by (simp_all add: quiet_3x2_def)
  from t [THEN conjunct2, THEN conjunct2, THEN conjunct2, rule_format, OF y x] t run
  show ?thesis by simp
qed

subsection \<open>C2: the output representation follows the native type\<close>

text \<open>
  C2. The fetch step selects the 8-bit unsigned output representation if and only if the
  source's native pixel type is exactly 8-bit unsigned (GDT_Byte); for every other
  supported native type (signed and unsigned 16- and 32-bit integers, 32- and 64-bit
  floats) the output elements are 64-bit floats. The fetch returns an array for every
  supported type whenever the sizes are not negative and 8 * xOut * yOut is a C int.
\<close>

theorem representation_by_native_type:
  "(fetch hBand gdal_type v = (l, Inr a) \<longrightarrow>
      (mxGetClassID a = mxUINT8_CLASS \<longleftrightarrow> gdal_type = GDT_Byte) \<and>
      (gdal_type \<in> {GDT_UInt16, GDT_Int16, GDT_UInt32, GDT_Int32, GDT_Float32, GDT_Float64} \<longrightarrow>
         mxGetClassID a = mxDOUBLE_CLASS)) \<and>
   (gdal_type \<in> {GDT_Byte, GDT_UInt16, GDT_Int16, GDT_UInt32, GDT_Int32, GDT_Float32, GDT_Float64} \<and>
    0 \<le> xout v \<and> 0 \<le> yout v \<and> int_range (8 * xout v) \<and> int_range (8 * xout v * yout v) \<longrightarrow>
      (\<exists>l' a'. fetch hBand gdal_type v = (l', Inr a')))"
proof (intro conjI impI)
  assume run: "fetch hBand gdal_type v = (l, Inr a)"
  have sup: "gdal_type \<in> {GDT_Byte, GDT_UInt16, GDT_Int16, GDT_UInt32, GDT_Int32, GDT_Float32, GDT_Float64}"
  proof (rule ccontr)
    assume "gdal_type \<notin> {GDT_Byte, GDT_UInt16, GDT_Int16, GDT_UInt32, GDT_Int32, GDT_Float32, GDT_Float64}"
    from raster_switch_unsupported [OF this, of hBand v] run show False
      by (simp add: fetch_def mexErrMsgTxt_def)
  qed
  have cls: "mxGetClassID a = (if gdal_type = GDT_Byte then mxUINT8_CLASS else mxDOUBLE_CLASS)"
  proof (cases "gdal_type = GDT_Byte")
    case True
    from fetch_Byte_pre [of hBand v l a] run True
    have p: "0 \<le> xout v" "0 \<le> yout v" "int_range (xout v * yout v)" "int_range (xout v)" by auto
    from fetch_Byte_correct [OF p, of hBand] run True show ?thesis by auto
  next
    case False
    with sup have w: "gdal_type \<in> {GDT_UInt16, GDT_Int16, GDT_UInt32, GDT_Int32, GDT_Float32, GDT_Float64}"
      by auto
    from fetch_wide_pre [OF run w]
    have p: "0 \<le> xout v" "0 \<le> yout v" "int_range (8 * xout v)" "int_range (8 * xout v * yout v)" by auto
    from fetch_wide_correct [OF w p, of hBand] run False show ?thesis by auto
  qed
  show "mxGetClassID a = mxUINT8_CLASS \<longleftrightarrow> gdal_type = GDT_Byte"
    using cls by (simp split: if_splits)
  show "mxGetClassID a = mxDOUBLE_CLASS"
    if "gdal_type \<in> {GDT_UInt16, GDT_Int16, GDT_UInt32, GDT_Int32, GDT_Float32, GDT_Float64}"
    using cls that by auto
next
  assume "gdal_type \<in> {GDT_Byte, GDT_UInt16, GDT_Int16, GDT_UInt32, GDT_Int32, GDT_Float32, GDT_Float64} \<and>
    0 \<le> xout v \<and> 0 \<le> yout v \<and> int_range (8 * xout v) \<and> int_range (8 * xout v * yout v)"
  then show "\<exists>l' a'. fetch hBand gdal_type v = (l', Inr a')"
    using fetch_returns by blast
qed

text \<open>Witness: a 2 by 2 window of a 16-bit integer band comes back as doubles.\<close>

theorem representation_by_native_type_witness:
  "fetch int16_overview GDT_Int16 (initial_request\<lparr>mexgdal_verbose := 0, xout := 2, yout := 2\<rparr>) =
     ([Call (Call_GDALRasterIO 0 0 (- 1) (- 1) 2 2 GDT_Float64)],
      Inr (MxDouble 2 2 [Finite 10, Finite 12, Finite 11, Finite 13]))
   \<and> GDT_Int16 \<in> {GDT_UInt16, GDT_Int16, GDT_UInt32, GDT_Int32, GDT_Float32, GDT_Float64}
   \<and> mxGetClassID (MxDouble 2 2 [Finite 10, Finite 12, Finite 11, Finite 13]) = mxDOUBLE_CLASS
   \<and> mxGetClassID (MxDouble 2 2 [Finite 10, Finite 12, Finite 11, Finite 13]) \<noteq> mxUINT8_CLASS"
proof -
  have run: "fetch int16_overview GDT_Int16 (initial_request\<lparr>mexgdal_verbose := 0, xout := 2, yout := 2\<rparr>) =
     ([Call (Call_GDALRasterIO 0 0 (- 1) (- 1) 2 2 GDT_Float64)],
      Inr (MxDouble 2 2 [Finite 10, Finite 12, Finite 11, Finite 13]))"
    by (simp add: fetch_def case_GDT_Float64_def initial_request_def int16_overview_def
        int_mul_def int_range_def INT_MIN_def INT_MAX_def mxCalloc_def calls_def seq_def
        transpose_outer.simps transpose_inner.simps in_bounds_def Let_def
        mxCreateNumericArray_DOUBLE_def copy_elements_def if_then_def ret_def upt_rec numeral_eq_Suc)
  have mem: "GDT_Int16 \<in> {GDT_UInt16, GDT_Int16, GDT_UInt32, GDT_Int32, GDT_Float32, GDT_Float64}"
    by simp
  note t = representation_by_native_type [THEN conjunct1, THEN mp, OF run]
  from t [THEN conjunct2, THEN mp, OF mem] t [THEN conjunct1] run mem
  show ?thesis by simp
qed

subsection \<open>C7: an unsupported native type is fatal\<close>

text \<open>
  C7. When the source's native pixel type is outside the supported set byte, int16,
  uint16, int32, uint32, float32, float64, the fetch call fails fatally, produces no
  output array, and its error message identifies the offending type value: the switch
  aborts with the message \<^verbatim>\<open>Unhandled GDALDataType %d.\<close> whose argument is the type, before any
  read; and \<^verbatim>\<open>mexFunction\<close>'s raster path, once the file is open and the band selected, returns
  no array, and returns that error whenever the window could be resolved.
\<close>

theorem unsupported_type_is_fatal:
  "gdal_type \<notin> {GDT_Byte, GDT_UInt16, GDT_Int16, GDT_UInt32, GDT_Int32, GDT_Float32, GDT_Float64} \<longrightarrow>
     fetch hBand gdal_type v =
       ([], Inl (MexErr ''Unhandled GDALDataType %d.\<newline>'' [ArgType gdal_type])) \<and>
     (GDALOpen lib f = Some hDataset \<and> selected_band hDataset v0 = Some hBand \<and>
      GDALGetRasterDataType hBand = gdal_type \<longrightarrow>
        (\<forall>a. snd (read_raster lib f v0) \<noteq> Inr a) \<and>
        (\<forall>l' w. window_planner v0 (GDALGetRasterXSize_hBand hBand) (GDALGetRasterYSize_hBand hBand) = (l', Inr w) \<longrightarrow>
           snd (read_raster lib f v0) = Inl (MexErr ''Unhandled GDALDataType %d.\<newline>'' [ArgType gdal_type])))"
proof (intro impI conjI allI)
  assume u: "gdal_type \<notin> {GDT_Byte, GDT_UInt16, GDT_Int16, GDT_UInt32, GDT_Int32, GDT_Float32, GDT_Float64}"
  show fe: "fetch hBand gdal_type v =
       ([], Inl (MexErr ''Unhandled GDALDataType %d.\<newline>'' [ArgType gdal_type]))" for v
    by (simp add: fetch_def raster_switch_unsupported [OF u] mexErrMsgTxt_def raise_def)
  assume h: "GDALOpen lib f = Some hDataset \<and> selected_band hDataset v0 = Some hBand \<and>
      GDALGetRasterDataType hBand = gdal_type"
  note r = snd_read_raster [of lib f hDataset v0 hBand]
  show "snd (read_raster lib f v0) \<noteq> Inr a" for a
    using r h fe by (simp split: sum.splits)
  show "snd (read_raster lib f v0) = Inl (MexErr ''Unhandled GDALDataType %d.\<newline>'' [ArgType gdal_type])"
    if "window_planner v0 (GDALGetRasterXSize_hBand hBand) (GDALGetRasterYSize_hBand hBand) = (l', Inr w)" for l' w
    using r h fe that by simp
qed

text \<open>Witness: the file \<^verbatim>\<open>c.tif\<close>, whose only band holds complex 16-bit samples.\<close>

theorem unsupported_type_is_fatal_witness:
  "GDT_CInt16 \<notin> {GDT_Byte, GDT_UInt16, GDT_Int16, GDT_UInt32, GDT_Int32, GDT_Float32, GDT_Float64}
   \<and> GDALOpen example_gdal ''c.tif'' = Some c_tif
   \<and> selected_band c_tif initial_request = Some complex_band
   \<and> GDALGetRasterDataType complex_band = GDT_CInt16
   \<and> fetch complex_band GDT_CInt16 quiet_3x2 =
       ([], Inl (MexErr ''Unhandled GDALDataType %d.\<newline>'' [ArgType GDT_CInt16]))
   \<and> snd (read_raster example_gdal ''c.tif'' initial_request) =
       Inl (MexErr ''Unhandled GDALDataType %d.\<newline>'' [ArgType GDT_CInt16])"
proof -
  have u: "GDT_CInt16 \<notin> {GDT_Byte, GDT_UInt16, GDT_Int16, GDT_UInt32, GDT_Int32, GDT_Float32, GDT_Float64}"
    by simp
  have h: "GDALOpen example_gdal ''c.tif'' = Some c_tif \<and>
      selected_band c_tif initial_request = Some complex_band \<and>
      GDALGetRasterDataType complex_band = GDT_CInt16"
    by (simp add: example_gdal_def selected_band_def initial_request_def GDALGetRasterBand_def
        GDALGetRasterCount_def c_tif_def complex_band_def)
  have wp: "window_planner initial_request (GDALGetRasterXSize_hBand complex_band)
       (GDALGetRasterYSize_hBand complex_band) =
     ([], Inr (initial_request\<lparr>xextend := 2, yextend := 2, xout := 2, yout := 2\<rparr>))"
    by (simp add: window_planner_def initial_request_def complex_band_def int_sub_def
        int_range_def INT_MIN_def INT_MAX_def)
  note t = unsupported_type_is_fatal [where gdal_type = GDT_CInt16 and hBand = complex_band
      and v = quiet_3x2 and lib = example_gdal and f = "''c.tif''" and hDataset = c_tif
      and ?v0.0 = initial_request, THEN mp, OF u]
  from t [THEN conjunct1] t [THEN conjunct2, THEN mp, OF h, THEN conjunct2, rule_format, OF wp] u h
  show ?thesis by simp
qed

subsection \<open>C6: the georeference resolver stops at the first success\<close>

text \<open>
  C6. The georeference resolver consults its strategies in the fixed order (1) internally
  stored transform, (2) generic .wld sidecar with replaced extension, (3) .wld sidecar with
  appended extension, (4) library-version-gated transform guessing; it returns the result of
  the first strategy that succeeds without consulting later ones, and when every strategy
  fails it reports absence (status -1, a normal return), not an error. Stated as:
  \<^verbatim>\<open>record_geotransform\<close> makes exactly the calls of \<open>first_success\<close> on the four strategies,
  and returns its outcome. The file name must leave room for \<^verbatim>\<open>.xxx\<close> in the 5000 bytes of
  \<^verbatim>\<open>generic_buffer\<close>, and \<^verbatim>\<open>GDALReadWorldFile\<close> returns TRUE (1) or FALSE (0), as GDAL
  documents.
\<close>

theorem record_geotransform_first_success:
  assumes fits: "sprintf_fits 5000 ''%s.xxx'' gdal_filename"
    and tf: "\<And>g e a. fst (GDALReadWorldFile lib g e a) = 0 \<or> fst (GDALReadWorldFile lib g e a) = 1"
  shows "record_geotransform lib gdal_filename hDataset =
     (case first_success (georeference_strategies lib gdal_filename hDataset) adf0 of
        (cs, ok, adf) \<Rightarrow> (map Call cs, Inr (if ok then 0 else - 1, adf)))"
proof -
  obtain err adf1 where g: "GDALGetGeoTransform hDataset = (err, adf1)" by (cases "GDALGetGeoTransform hDataset")
  obtain r2 adf2 where w2: "GDALReadWorldFile lib gdal_filename (Some ''wld'') adf1 = (r2, adf2)"
    by (cases "GDALReadWorldFile lib gdal_filename (Some ''wld'') adf1")
  obtain r3 adf3 where w3: "GDALReadWorldFile lib (gdal_filename @ ''.xxx'') (Some ''wld'') adf2 = (r3, adf3)"
    by (cases "GDALReadWorldFile lib (gdal_filename @ ''.xxx'') (Some ''wld'') adf2")
  obtain r4 adf4 where w4: "GDALReadWorldFile lib gdal_filename None adf3 = (r4, adf4)"
    by (cases "GDALReadWorldFile lib gdal_filename None adf3")
  from tf [of "gdal_filename @ ''.xxx''" "Some ''wld''" adf2] w3 have r3: "r3 = 0 \<or> r3 = 1" by simp
  show ?thesis
    using fits r3
    by (auto simp: record_geotransform_def georeference_strategies_def world_file_strategy_def
        g w2 w3 w4 calls_def seq_def ret_def raise_def Let_def)
qed

text \<open>Witness: \<^verbatim>\<open>a.tif\<close> has no internal transform and a world file \<^verbatim>\<open>a.wld\<close>: the second
  strategy succeeds, its transform is returned and the last two strategies are not
  consulted.\<close>

theorem record_geotransform_first_success_witness:
  "sprintf_fits 5000 ''%s.xxx'' ''a.tif''
   \<and> (\<forall>g e a. fst (GDALReadWorldFile example_gdal g e a) = 0 \<or>
                 fst (GDALReadWorldFile example_gdal g e a) = 1)
   \<and> record_geotransform example_gdal ''a.tif'' a_tif =
       ([Call Call_GDALGetGeoTransform, Call (Call_GDALReadWorldFile ''a.tif'' (Some ''wld''))],
        Inr (0, world_file_transform))"
proof -
  have fits: "sprintf_fits 5000 ''%s.xxx'' ''a.tif''"
    by (simp add: sprintf_fits_def)
  have tf: "fst (GDALReadWorldFile example_gdal g e a) = 0 \<or>
            fst (GDALReadWorldFile example_gdal g e a) = 1" for g e a
    by (simp add: example_gdal_def)
  have fs: "first_success (georeference_strategies example_gdal ''a.tif'' a_tif) identity_transform =
      ([Call_GDALGetGeoTransform, Call_GDALReadWorldFile ''a.tif'' (Some ''wld'')],
       True, world_file_transform)"
    by (simp add: georeference_strategies_def world_file_strategy_def example_gdal_def a_tif_def)
  from record_geotransform_first_success [OF fits tf, of a_tif identity_transform] fs fits tf
  show ?thesis by simp
qed

subsection \<open>C4: one entry per band, each with its own band's values\<close>

text \<open>
  C4. For every source with bandCount bands, the metadata dump produces exactly bandCount
  BandInfo entries in band order 1..bandCount, where entry i holds band i's own width,
  height, native data-type name and no-data value. The code does not do this: the band
  loop writes every band's fields into element 0 of the Band array. The evaluation below
  is the dump of \<^verbatim>\<open>a.tif\<close>, whose band 1 is 3 by 2 of type Byte (no overviews) and whose
  band 2 is 4 by 4 of type Int16 (one overview): entry 1 holds the values of band 2, and
  every field of entry 2 is unset.
\<close>

theorem two_band_dump_fills_entry_one_only: "populate_metadata_struct example_gdal ''a.tif'' =
  ([Call (Call_GDALOpen ''a.tif''), Call Call_GDALGetGeoTransform,
    Call (Call_GDALReadWorldFile ''a.tif'' (Some ''wld'')), Call Call_GDALClose],
   Inr (MxStruct 1 1
        [''ProjectionRef'', ''GeoTransform'', ''DriverShortName'',
         ''DriverLongName'', ''RasterXSize'', ''RasterYSize'',
         ''RasterCount'', ''Driver'', ''Band'']
        [[Some (MxChar 1 0 []),
          Some (MxDouble 6 1 [Finite 100, Finite 2, Finite 0, Finite 200, Finite 0, Finite (- 2)]),
          Some (MxChar 1 5 ''GTiff''), Some (MxChar 1 7 ''GeoTIFF''),
          Some (MxDouble 1 1 [Finite 3]), Some (MxDouble 1 1 [Finite 2]),
          Some (MxDouble 1 1 [Finite 2]),
          Some (MxStruct 2 1 [''DriverLongName'', ''DriverShortName'']
             [[Some (MxChar 1 7 ''GeoTIFF''), Some (MxChar 1 5 ''GTiff'')],
              [Some (MxChar 1 25 ''Portable Network Graphics''), Some (MxChar 1 3 ''PNG'')]]),
          Some (MxStruct 2 1 [''XSize'', ''YSize'', ''Overview'', ''NoDataValue'', ''DataType'']
             [[Some (MxDouble 1 1 [Finite 4]),
               Some (MxDouble 1 1 [Finite 4]),
               Some (MxStruct 1 1 [''XSize'', ''YSize'']
                  [[Some (MxDouble 1 1 [Finite 2]), Some (MxDouble 1 1 [Finite 2])]]),
               Some (MxDouble 1 1 [Finite (- 9999)]),
               Some (MxChar 1 5 ''Int16'')],
              [None, None, None, None, None]])]]))"
  by (simp add: eval_defs numeral_eq_Suc)

subsection \<open>C8: a band with no overviews\<close>

text \<open>
  C8. For every band with zero overviews, the metadata dump serializes that band's
  overviews field as an empty sequence: present but empty, never absent or null, and this
  is not an error. The claim is read as the caller reads the dump: every entry of the Band
  array has the field \<^verbatim>\<open>Overview\<close>, and a field left unset is the empty array. For a band
  without overviews \<^verbatim>\<open>handle_overviews\<close> returns normally and leaves the field as it is
  (lemma \<open>handle_overviews_none\<close>), and when no band of the source has overviews every
  entry shows none (lemma \<open>band_loop_without_overviews\<close>). But \<^verbatim>\<open>handle_overviews\<close>
  stores the overview array of every band in element 0 of the Band array, so the entry of
  a band without overviews can show the overviews of another band. The evaluation below
  is the dump of \<^verbatim>\<open>a.tif\<close>: its band 1 has no overviews and its band 2 has one; entry 1 of
  the Band array shows one overview, that of band 2, and entry 2 shows none.
\<close>

theorem band_without_overviews_shows_overviews:
  "GDALGetRasterBand a_tif 1 = Some byte_band \<and> GDALGetOverviewCount byte_band = 0
   \<and> GDALGetRasterBand a_tif 2 = Some int16_band \<and> GDALGetOverviewCount int16_band = 1
   \<and> dumped_bands example_gdal ''a.tif'' =
       Some (MxStruct 2 1 [''XSize'', ''YSize'', ''Overview'', ''NoDataValue'', ''DataType'']
             [[Some (MxDouble 1 1 [Finite 4]),
               Some (MxDouble 1 1 [Finite 4]),
               Some (MxStruct 1 1 [''XSize'', ''YSize'']
                  [[Some (MxDouble 1 1 [Finite 2]), Some (MxDouble 1 1 [Finite 2])]]),
               Some (MxDouble 1 1 [Finite (- 9999)]),
               Some (MxChar 1 5 ''Int16'')],
              [None, None, None, None, None]])
   \<and> overviews_shown (MxStruct 2 1 [''XSize'', ''YSize'', ''Overview'', ''NoDataValue'', ''DataType'']
             [[Some (MxDouble 1 1 [Finite 4]),
               Some (MxDouble 1 1 [Finite 4]),
               Some (MxStruct 1 1 [''XSize'', ''YSize'']
                  [[Some (MxDouble 1 1 [Finite 2]), Some (MxDouble 1 1 [Finite 2])]]),
               Some (MxDouble 1 1 [Finite (- 9999)]),
               Some (MxChar 1 5 ''Int16'')],
              [None, None, None, None, None]]) 0 = 1
   \<and> overviews_shown (MxStruct 2 1 [''XSize'', ''YSize'', ''Overview'', ''NoDataValue'', ''DataType'']
             [[Some (MxDouble 1 1 [Finite 4]),
               Some (MxDouble 1 1 [Finite 4]),
               Some (MxStruct 1 1 [''XSize'', ''YSize'']
                  [[Some (MxDouble 1 1 [Finite 2]), Some (MxDouble 1 1 [Finite 2])]]),
               Some (MxDouble 1 1 [Finite (- 9999)]),
               Some (MxChar 1 5 ''Int16'')],
              [None, None, None, None, None]]) 1 = 0"
  by (simp add: dumped_bands_def overviews_shown_def eval_defs numeral_eq_Suc)

subsection \<open>C5: the shape policy of the option fields\<close>




subsection \<open>C9: metadata mode and pixel mode exclude each other\<close>

text \<open>
  C9. For every call with dumpMetadataOnly (gdal_dump) resolved to true, only the metadata
  record is produced and no windowed raster read is ever performed; the metadata path and
  the pixel-fetch path never both execute within one call. Stated on the log of the call:
  when the arguments resolve with gdal_dump not 0, the call is \<^verbatim>\<open>GDALAllRegister\<close> followed by
  \<^verbatim>\<open>populate_metadata_struct\<close> and nothing else, its log holds no \<^verbatim>\<open>GDALRasterIO\<close>, and
  what it returns, if anything, is a structure; when they resolve with gdal_dump 0, the call
  is \<^verbatim>\<open>GDALAllRegister\<close> followed by the raster path, its log holds no georeference query
  (the calls that only the metadata path makes), and what it returns is not a structure;
  and no call at all, well-formed or not, logs both a raster read and a georeference query.
\<close>

theorem dump_and_fetch_are_exclusive:
  "(read_arguments nlhs prhs = (l1, Inr (gdal_filename, v)) \<and> gdal_dump v \<noteq> 0 \<longrightarrow>
      mexFunction lib nlhs prhs =
        (l1 @ Call Call_GDALAllRegister # fst (populate_metadata_struct lib gdal_filename),
         snd (populate_metadata_struct lib gdal_filename)) \<and>
      \<not> list_ex is_raster_read (fst (mexFunction lib nlhs prhs)) \<and>
      (\<forall>a. snd (mexFunction lib nlhs prhs) = Inr a \<longrightarrow> mxIsStruct a)) \<and>
   (read_arguments nlhs prhs = (l1, Inr (gdal_filename, v)) \<and> gdal_dump v = 0 \<longrightarrow>
      mexFunction lib nlhs prhs =
        (l1 @ Call Call_GDALAllRegister # fst (read_raster lib gdal_filename v),
         snd (read_raster lib gdal_filename v)) \<and>
      \<not> list_ex is_georeference_query (fst (mexFunction lib nlhs prhs)) \<and>
      (\<forall>a. snd (mexFunction lib nlhs prhs) = Inr a \<longrightarrow> \<not> mxIsStruct a)) \<and>
   \<not> (list_ex is_raster_read (fst (mexFunction lib nlhs prhs)) \<and>
      list_ex is_georeference_query (fst (mexFunction lib nlhs prhs)))"
proof -
  have warn: "list_all is_Warn (fst (read_arguments nlhs prhs))" for nlhs prhs
    by (rule warn_read_arguments)
  have dump: "mexFunction lib nlhs prhs =
        (l1 @ Call Call_GDALAllRegister # fst (populate_metadata_struct lib gdal_filename),
         snd (populate_metadata_struct lib gdal_filename)) \<and>
      \<not> list_ex is_raster_read (fst (mexFunction lib nlhs prhs)) \<and>
      (\<forall>a. snd (mexFunction lib nlhs prhs) = Inr a \<longrightarrow> mxIsStruct a)"
    if h: "read_arguments nlhs prhs = (l1, Inr (gdal_filename, v)) \<and> gdal_dump v \<noteq> 0"
    for l1 gdal_filename v
  proof -
    from h have m: "mexFunction lib nlhs prhs =
        (l1 @ Call Call_GDALAllRegister # fst (populate_metadata_struct lib gdal_filename),
         snd (populate_metadata_struct lib gdal_filename))"
      by (simp add: mexFunction_dispatch)
    from warn [of nlhs prhs] h have w: "list_all is_Warn l1" by simp
    have nr: "\<not> list_ex is_raster_read (fst (mexFunction lib nlhs prhs))"
      using w no_read_populate [of lib gdal_filename] is_Warn_not_read
      by (auto simp: m list_ex_iff list_all_iff)
    have st: "\<forall>a. snd (mexFunction lib nlhs prhs) = Inr a \<longrightarrow> mxIsStruct a"
      using populate_gives_struct [of lib gdal_filename]
      by (auto simp: m) (metis prod.collapse)
    from m nr st show ?thesis by blast
  qed
  have pix: "mexFunction lib nlhs prhs =
        (l1 @ Call Call_GDALAllRegister # fst (read_raster lib gdal_filename v),
         snd (read_raster lib gdal_filename v)) \<and>
      \<not> list_ex is_georeference_query (fst (mexFunction lib nlhs prhs)) \<and>
      (\<forall>a. snd (mexFunction lib nlhs prhs) = Inr a \<longrightarrow> \<not> mxIsStruct a)"
    if h: "read_arguments nlhs prhs = (l1, Inr (gdal_filename, v)) \<and> gdal_dump v = 0"
    for l1 gdal_filename v
  proof -
    from h have m: "mexFunction lib nlhs prhs =
        (l1 @ Call Call_GDALAllRegister # fst (read_raster lib gdal_filename v),
         snd (read_raster lib gdal_filename v))"
      by (simp add: mexFunction_dispatch)
    from warn [of nlhs prhs] h have w: "list_all is_Warn l1" by simp
    have ng: "\<not> list_ex is_georeference_query (fst (mexFunction lib nlhs prhs))"
      using w no_geo_read_raster [of lib gdal_filename v] is_Warn_not_read
      by (auto simp: m list_ex_iff list_all_iff)
    have st: "\<forall>a. snd (mexFunction lib nlhs prhs) = Inr a \<longrightarrow> \<not> mxIsStruct a"
      using read_raster_gives_numeric [of lib gdal_filename v]
      by (auto simp: m) (metis prod.collapse)
    from m ng st show ?thesis by blast
  qed
  have excl: "\<not> (list_ex is_raster_read (fst (mexFunction lib nlhs prhs)) \<and>
      list_ex is_georeference_query (fst (mexFunction lib nlhs prhs)))"
  proof (cases "read_arguments nlhs prhs")
    case (Pair l0 r0)
    show ?thesis
    proof (cases r0)
      case (Inl e)
      with Pair have "mexFunction lib nlhs prhs = (l0, Inl e)"
        by (simp add: mexFunction_no_arguments)
      moreover from warn [of nlhs prhs] Pair have "list_all is_Warn l0" by simp
      ultimately show ?thesis using is_Warn_not_read
        by (auto simp: list_ex_iff list_all_iff)
    next
      case (Inr fv)
      obtain f0 v0 where fv: "fv = (f0, v0)" by (cases fv)
      show ?thesis
      proof (cases "gdal_dump v0 = 0")
        case True
        with pix [of l0 f0 v0] Pair Inr fv show ?thesis by blast
      next
        case False
        with dump [of l0 f0 v0] Pair Inr fv show ?thesis by blast
      qed
    qed
  qed
  from dump pix excl show ?thesis by blast
qed

text \<open>Witness: the call \<^verbatim>\<open>mexgdal('a.tif', struct('gdal_dump', 1))\<close>.\<close>

theorem dump_and_fetch_are_exclusive_witness:
  "read_arguments 1 [MxChar 1 5 ''a.tif'', MxStruct 1 1 [''gdal_dump''] [[Some (MxDouble 1 1 [Finite 1])]]] =
     ([], Inr (''a.tif'', initial_request\<lparr>gdal_dump := 1\<rparr>))
   \<and> gdal_dump (initial_request\<lparr>gdal_dump := 1\<rparr>) \<noteq> 0
   \<and> mexFunction example_gdal 1
        [MxChar 1 5 ''a.tif'', MxStruct 1 1 [''gdal_dump''] [[Some (MxDouble 1 1 [Finite 1])]]] =
       (Call Call_GDALAllRegister # fst (populate_metadata_struct example_gdal ''a.tif''),
        snd (populate_metadata_struct example_gdal ''a.tif''))
   \<and> \<not> list_ex is_raster_read (fst (mexFunction example_gdal 1
        [MxChar 1 5 ''a.tif'', MxStruct 1 1 [''gdal_dump''] [[Some (MxDouble 1 1 [Finite 1])]]]))"
proof -
  have args: "read_arguments 1
      [MxChar 1 5 ''a.tif'', MxStruct 1 1 [''gdal_dump''] [[Some (MxDouble 1 1 [Finite 1])]]] =
     ([], Inr (''a.tif'', initial_request\<lparr>gdal_dump := 1\<rparr>))"
    by (simp add: read_arguments_def Let_def if_then_def unpack_single_field unpack_field_def
        unpack_gdal_dump_def int_of_double_def int_range_def INT_MIN_def INT_MAX_def)
  have d: "gdal_dump (initial_request\<lparr>gdal_dump := 1\<rparr>) \<noteq> 0"
    by simp
  note t = dump_and_fetch_are_exclusive [where lib = example_gdal and nlhs = 1
      and prhs = "[MxChar 1 5 ''a.tif'', MxStruct 1 1 [''gdal_dump''] [[Some (MxDouble 1 1 [Finite 1])]]]"
      and ?l1.0 = "[]" and gdal_filename = "''a.tif''" and v = "initial_request\<lparr>gdal_dump := 1\<rparr>"]
  note c = t [THEN conjunct1, THEN mp, OF conjI [OF args d]]
  have m: "mexFunction example_gdal 1
        [MxChar 1 5 ''a.tif'', MxStruct 1 1 [''gdal_dump''] [[Some (MxDouble 1 1 [Finite 1])]]] =
       (Call Call_GDALAllRegister # fst (populate_metadata_struct example_gdal ''a.tif''),
        snd (populate_metadata_struct example_gdal ''a.tif''))"
    using c [THEN conjunct1] by simp
  from args d m c [THEN conjunct2, THEN conjunct1]
  show ?thesis by blast
qed

subsection \<open>C10: the verbose flag does not change the result\<close>

text \<open>
  C10. For every input file and options record, the pixel array returned (its element
  type, dimensions, and every element value) is identical whether the verbose flag is 0 or
  nonzero: the verbose flag only gates diagnostic printing and never influences the
  computed result. Stated for two runs of \<^verbatim>\<open>mexFunction\<close> on the same library state, the same
  file argument and two options structures that are verbose variants of each other: the
  two runs return the same array, or the same metadata, or fail with the same error. Only
  their logs differ. (GDAL is a function of its arguments here: the extra calls of a verbose
  run, \<^verbatim>\<open>GDALComputeRasterMinMax\<close> among them, read the source and do not change it.)
\<close>

theorem verbose_does_not_change_the_result:
  assumes "verbose_variant options1 options2"
  shows "snd (mexFunction lib nlhs [mx_input_gdal_file, options1]) =
         snd (mexFunction lib nlhs [mx_input_gdal_file, options2])"
proof (cases "snd (read_arguments nlhs [mx_input_gdal_file, options1])")
  case (Inl e)
  with read_arguments_variant [OF assms, of nlhs mx_input_gdal_file]
  have "snd (read_arguments nlhs [mx_input_gdal_file, options2]) = Inl e" by simp
  with Inl show ?thesis by (simp add: mexFunction_def snd_seq)
next
  case (Inr fv)
  obtain f v where fv: "fv = (f, v)" by (cases fv)
  with Inr read_arguments_variant [OF assms, of nlhs mx_input_gdal_file]
  obtain w where w: "snd (read_arguments nlhs [mx_input_gdal_file, options2]) = Inr (f, w)"
    and ag: "agree_except_verbose v w" by auto
  from ag have d: "gdal_dump v = gdal_dump w" by (simp add: agree_except_verbose_def)
  show ?thesis
    using Inr fv w d read_raster_agree [OF ag, of lib f]
    by (simp add: mexFunction_def snd_seq)
qed

text \<open>Witness: \<^verbatim>\<open>a.tif\<close> read with verbose 0 and with verbose 1. The quiet run is
  evaluated; the result of the verbose run follows from the theorem.\<close>

theorem verbose_does_not_change_the_result_witness:
  "verbose_variant (MxStruct 1 1 [''verbose''] [[Some (MxDouble 1 1 [Finite 0])]])
                   (MxStruct 1 1 [''verbose''] [[Some (MxDouble 1 1 [Finite 1])]])
   \<and> snd (mexFunction example_gdal 1
          [MxChar 1 5 ''a.tif'', MxStruct 1 1 [''verbose''] [[Some (MxDouble 1 1 [Finite 0])]]]) =
       Inr (MxUInt8 2 3 [10, 13, 11, 14, 12, 15])
   \<and> snd (mexFunction example_gdal 1
          [MxChar 1 5 ''a.tif'', MxStruct 1 1 [''verbose''] [[Some (MxDouble 1 1 [Finite 1])]]]) =
       Inr (MxUInt8 2 3 [10, 13, 11, 14, 12, 15])"
proof -
  have vv: "verbose_variant (MxStruct 1 1 [''verbose''] [[Some (MxDouble 1 1 [Finite 0])]])
                   (MxStruct 1 1 [''verbose''] [[Some (MxDouble 1 1 [Finite 1])]])"
    by (simp add: verbose_variant_def int_of_double_def int_range_def INT_MIN_def INT_MAX_def)
  have args: "read_arguments 1
      [MxChar 1 5 ''a.tif'', MxStruct 1 1 [''verbose''] [[Some (MxDouble 1 1 [Finite 0])]]] =
     ([], Inr (''a.tif'', initial_request\<lparr>mexgdal_verbose := 0\<rparr>))"
    by (simp add: read_arguments_def Let_def if_then_def unpack_single_field unpack_field_def
        unpack_verbose_def int_of_double_def int_range_def INT_MIN_def INT_MAX_def)
  have sel: "GDALOpen example_gdal ''a.tif'' = Some a_tif"
    "selected_band a_tif (initial_request\<lparr>mexgdal_verbose := 0\<rparr>) = Some byte_band"
    by (simp_all add: example_gdal_def selected_band_def initial_request_def GDALGetRasterBand_def
        GDALGetRasterCount_def a_tif_def)
  have wp: "window_planner (initial_request\<lparr>mexgdal_verbose := 0\<rparr>)
        (GDALGetRasterXSize_hBand byte_band) (GDALGetRasterYSize_hBand byte_band) =
     ([], Inr quiet_3x2)"
    by (simp add: window_planner_def initial_request_def byte_band_def quiet_3x2_def int_sub_def
        int_range_def INT_MIN_def INT_MAX_def)
  have fe: "snd (fetch byte_band GDT_Byte quiet_3x2) = Inr (MxUInt8 2 3 [10, 13, 11, 14, 12, 15])"
    by (simp add: fetch_def case_GDT_Byte_def quiet_3x2_def initial_request_def byte_band_def
        int_mul_def int_range_def INT_MIN_def INT_MAX_def mxCalloc_def calls_def seq_def
        transpose_outer.simps transpose_inner.simps in_bounds_def Let_def
        mxCreateNumericArray_UINT8_def copy_elements_def if_then_def ret_def upt_rec numeral_eq_Suc)
  have ty: "GDALGetRasterDataType byte_band = GDT_Byte"
    by (simp add: byte_band_def)
  have quiet: "snd (mexFunction example_gdal 1
          [MxChar 1 5 ''a.tif'', MxStruct 1 1 [''verbose''] [[Some (MxDouble 1 1 [Finite 0])]]]) =
       Inr (MxUInt8 2 3 [10, 13, 11, 14, 12, 15])"
  proof -
    have d0: "gdal_dump (initial_request\<lparr>mexgdal_verbose := 0\<rparr>) = 0"
      by (simp add: initial_request_def)
    have rr: "snd (read_raster example_gdal ''a.tif'' (initial_request\<lparr>mexgdal_verbose := 0\<rparr>)) =
        Inr (MxUInt8 2 3 [10, 13, 11, 14, 12, 15])"
      unfolding snd_read_raster [OF sel] wp ty by (simp add: fe)
    show ?thesis
      unfolding mexFunction_dispatch [OF args] by (simp only: d0 rr if_False snd_conv simp_thms)
  qed
  from verbose_does_not_change_the_result [OF vv, of example_gdal 1 "MxChar 1 5 ''a.tif''"] quiet vv
  show ?thesis by simp
qed

end
